theory Spec2Isabelle
  imports Complex_Main
begin

section \<open>Floating-point cells\<close>

text \<open>
  A cell of a pandas column is a binary64 value. The model keeps the three special values
  that decide the behaviour of the indicator code (both infinities and NaN, which pandas
  also uses for a missing cell) and takes the finite values as exact reals: rounding and
  the sign of zero are not modelled.
\<close>

datatype pyfloat = Fin real | PInf | NInf | NaN

type_synonym series = "pyfloat list"

fun isna :: "pyfloat \<Rightarrow> bool" where
  "isna NaN = True"
| "isna _ = False"

fun fneg :: "pyfloat \<Rightarrow> pyfloat" where
  "fneg (Fin a) = Fin (- a)"
| "fneg PInf = NInf"
| "fneg NInf = PInf"
| "fneg NaN = NaN"

fun fadd :: "pyfloat \<Rightarrow> pyfloat \<Rightarrow> pyfloat" where
  "fadd (Fin a) (Fin b) = Fin (a + b)"
| "fadd NaN _ = NaN"
| "fadd _ NaN = NaN"
| "fadd PInf NInf = NaN"
| "fadd NInf PInf = NaN"
| "fadd PInf _ = PInf"
| "fadd NInf _ = NInf"
| "fadd _ PInf = PInf"
| "fadd _ NInf = NInf"

definition fsub :: "pyfloat \<Rightarrow> pyfloat \<Rightarrow> pyfloat" where
  "fsub a b = fadd a (fneg b)"

text \<open>Comparisons with NaN are false, as in IEEE 754.\<close>

fun fgt :: "pyfloat \<Rightarrow> pyfloat \<Rightarrow> bool" where
  "fgt NaN _ = False"
| "fgt _ NaN = False"
| "fgt (Fin a) (Fin b) = (a > b)"
| "fgt PInf PInf = False"
| "fgt PInf _ = True"
| "fgt NInf _ = False"
| "fgt (Fin a) PInf = False"
| "fgt (Fin a) NInf = True"

definition flt :: "pyfloat \<Rightarrow> pyfloat \<Rightarrow> bool" where
  "flt a b = fgt b a"

text \<open>
  Division of two columns (numpy): no exception is raised; a finite non-zero value over
  zero is an infinity, zero over zero is NaN.
\<close>

fun fdiv :: "pyfloat \<Rightarrow> pyfloat \<Rightarrow> pyfloat" where
  "fdiv NaN _ = NaN"
| "fdiv _ NaN = NaN"
| "fdiv (Fin a) (Fin b) =
     (if b \<noteq> 0 then Fin (a / b)
      else if a > 0 then PInf else if a < 0 then NInf else NaN)"
| "fdiv (Fin a) PInf = Fin 0"
| "fdiv (Fin a) NInf = Fin 0"
| "fdiv PInf (Fin b) = (if b < 0 then NInf else PInf)"
| "fdiv NInf (Fin b) = (if b < 0 then PInf else NInf)"
| "fdiv PInf _ = NaN"
| "fdiv NInf _ = NaN"

section \<open>Exceptions and data frames\<close>

datatype exn = KeyError | ValueError | IndexError | ZeroDivisionError | ExternalError

text \<open>
  A data frame: the index (one timestamp per row) and the columns in their order, each a
  series as long as the index. Timestamps are wall-clock readings in seconds.
\<close>

record frame =
  index :: "int list"
  columns :: "(string \<times> series) list"

definition getitem :: "frame \<Rightarrow> string \<Rightarrow> exn + series" where
  "getitem df c = (case map_of (columns df) c of None \<Rightarrow> Inl KeyError | Some s \<Rightarrow> Inr s)"

fun set_col :: "string \<Rightarrow> series \<Rightarrow> (string \<times> series) list \<Rightarrow> (string \<times> series) list" where
  "set_col c s [] = [(c, s)]"
| "set_col c s ((k, v) # kvs) = (if k = c then (c, s) # kvs else (k, v) # set_col c s kvs)"

definition setitem :: "frame \<Rightarrow> string \<Rightarrow> series \<Rightarrow> frame" where
  "setitem df c s = df\<lparr>columns := set_col c s (columns df)\<rparr>"

section \<open>Series operations used by the indicators\<close>

text \<open>\<open>Series.diff()\<close>: the first entry is NaN, entry \<open>i\<close> is \<open>xs[i] - xs[i-1]\<close>.\<close>

fun diff_from :: "pyfloat \<Rightarrow> series \<Rightarrow> series" where
  "diff_from prev [] = []"
| "diff_from prev (x # xs) = fsub x prev # diff_from x xs"

definition diff :: "series \<Rightarrow> series" where
  "diff xs = diff_from NaN xs"

text \<open>\<open>s.where(cond, 0)\<close>: the entry is kept where the condition holds and is 0 elsewhere.\<close>

definition where_else0 :: "(pyfloat \<Rightarrow> bool) \<Rightarrow> series \<Rightarrow> series" where
  "where_else0 cond s = map (\<lambda>d. if cond d then d else Fin 0) s"

text \<open>
  \<open>s.rolling(window=w).mean()\<close> for an integer window: infinities are turned into NaN
  first, \<open>min_periods\<close> defaults to the window, the window at row \<open>i\<close> is the rows
  \<open>max(0, i+1-w) .. i\<close>, and the mean of the observations (the non-NaN entries) is taken
  when there are at least \<open>min_periods\<close> of them and at least one; a negative window is
  a ValueError.
\<close>

fun inf_to_nan :: "pyfloat \<Rightarrow> pyfloat" where
  "inf_to_nan (Fin a) = Fin a"
| "inf_to_nan _ = NaN"

fun observations :: "series \<Rightarrow> real list" where
  "observations [] = []"
| "observations (Fin a # xs) = a # observations xs"
| "observations (_ # xs) = observations xs"

definition window :: "nat \<Rightarrow> nat \<Rightarrow> 'a list \<Rightarrow> 'a list" where
  "window w i xs = drop (Suc i - w) (take (Suc i) xs)"

definition mean_at :: "nat \<Rightarrow> series \<Rightarrow> nat \<Rightarrow> pyfloat" where
  "mean_at w xs i =
     (let obs = observations (window w i (map inf_to_nan xs)) in
      if length obs \<ge> w \<and> length obs > 0 then Fin (sum_list obs / real (length obs))
      else NaN)"

definition rolling_mean_nat :: "nat \<Rightarrow> series \<Rightarrow> series" where
  "rolling_mean_nat w xs = map (mean_at w xs) [0..<length xs]"

definition rolling_mean :: "int \<Rightarrow> series \<Rightarrow> exn + series" where
  "rolling_mean w xs = (if w < 0 then Inl ValueError else Inr (rolling_mean_nat (nat w) xs))"

section \<open>calculate_rsi\<close>

definition rsi_gain_raw :: "series \<Rightarrow> series" where
  "rsi_gain_raw close = where_else0 (\<lambda>d. fgt d (Fin 0)) (diff close)"

definition rsi_loss_raw :: "series \<Rightarrow> series" where
  "rsi_loss_raw close = map fneg (where_else0 (\<lambda>d. flt d (Fin 0)) (diff close))"

definition rsi_of :: "pyfloat \<Rightarrow> pyfloat \<Rightarrow> pyfloat" where
  "rsi_of gain loss =
     (let rs = fdiv gain loss in fsub (Fin 100) (fdiv (Fin 100) (fadd (Fin 1) rs)))"

definition calculate_rsi :: "frame \<Rightarrow> int \<Rightarrow> exn + series" where
  "calculate_rsi data period =
     (case getitem data ''Close'' of Inl e \<Rightarrow> Inl e
      | Inr close \<Rightarrow>
         (case rolling_mean period (rsi_gain_raw close) of Inl e \<Rightarrow> Inl e
          | Inr gain \<Rightarrow>
             (case rolling_mean period (rsi_loss_raw close) of Inl e \<Rightarrow> Inl e
              | Inr loss \<Rightarrow> Inr (map2 rsi_of gain loss))))"

text \<open>
  The call \<open>calculate_rsi(data, period)\<close> as its caller sees it: the state of the argument
  after the call, and the result. The body assigns to local names only; \<open>diff\<close>,
  \<open>where\<close>, \<open>rolling\<close>, \<open>mean\<close> and the arithmetic each build a new series.
\<close>

definition calculate_rsi_call :: "frame \<Rightarrow> int \<Rightarrow> frame \<times> (exn + series)" where
  "calculate_rsi_call data period = (data, calculate_rsi data period)"

text \<open>
  The gains and losses of a series of finite closes, as reals: what \<open>rsi_gain_raw\<close> and
  \<open>rsi_loss_raw\<close> hold when no close is NaN or infinite (used in the proofs only).
\<close>

definition gains :: "real list \<Rightarrow> real list" where
  "gains cs = map (\<lambda>i. if i = 0 then 0 else max 0 (cs ! i - cs ! (i - 1))) [0..<length cs]"

definition losses :: "real list \<Rightarrow> real list" where
  "losses cs = map (\<lambda>i. if i = 0 then 0 else max 0 (cs ! (i - 1) - cs ! i)) [0..<length cs]"

section \<open>calculate_moving_averages\<close>

text \<open>Python's \<open>str\<close> of an integer, for the column name \<open>f'MA{period}'\<close>.\<close>

definition digit_char :: "nat \<Rightarrow> char" where
  "digit_char d = char_of (48 + d)"

function str_nat :: "nat \<Rightarrow> string" where
  "str_nat n = (if n < 10 then [digit_char n] else str_nat (n div 10) @ [digit_char (n mod 10)])"
  by pat_completeness auto
termination
  by (relation "measure id") auto

declare str_nat.simps [simp del]

definition str_int :: "int \<Rightarrow> string" where
  "str_int i = (if i < 0 then CHR ''-'' # str_nat (nat (- i)) else str_nat (nat i))"

text \<open>
  The function assigns into the frame it was given and returns that same object. The
  model returns the state of that object after the call, and the exception when the call
  raised (the columns written before the exception stay written). The right-hand side of
  the assignment is evaluated before the column name.
\<close>

fun calculate_moving_averages :: "frame \<Rightarrow> int list \<Rightarrow> frame \<times> exn option" where
  "calculate_moving_averages df [] = (df, None)"
| "calculate_moving_averages df (period # periods) =
     (case getitem df ''Close'' of Inl e \<Rightarrow> (df, Some e)
      | Inr close \<Rightarrow>
         (case rolling_mean period close of Inl e \<Rightarrow> (df, Some e)
          | Inr ma \<Rightarrow>
              calculate_moving_averages (setitem df (''MA'' @ str_int period) ma) periods))"

section \<open>Cleaning and windowing the fetched frame\<close>

text \<open>Boolean indexing: the rows whose mask entry is true, in order.\<close>

definition select_rows :: "bool list \<Rightarrow> 'a list \<Rightarrow> 'a list" where
  "select_rows msk xs = map snd (filter fst (zip msk xs))"

definition boolean_index :: "frame \<Rightarrow> bool list \<Rightarrow> frame" where
  "boolean_index df msk =
     \<lparr>index = select_rows msk (index df),
      columns = map (\<lambda>(c, s). (c, select_rows msk s)) (columns df)\<rparr>"

text \<open>\<open>df.empty\<close>: an axis of length 0.\<close>

definition df_empty :: "frame \<Rightarrow> bool" where
  "df_empty df = (index df = [] \<or> columns df = [])"

text \<open>\<open>df.dropna()\<close>: the rows in which no column holds NaN.\<close>

definition notna_mask :: "frame \<Rightarrow> bool list" where
  "notna_mask df =
     foldr (\<lambda>(c, s) m. map2 (\<and>) (map (\<lambda>v. \<not> isna v) s) m) (columns df)
       (replicate (length (index df)) True)"

definition dropna :: "frame \<Rightarrow> frame" where
  "dropna df = boolean_index df (notna_mask df)"

text \<open>
  Lines 67 to 72 of \<open>create_stock_chart\<close>: clean, then add the moving averages and the
  RSI (default period 14) to the cleaned frame.
\<close>

definition prepare_frame :: "frame \<Rightarrow> exn + frame" where
  "prepare_frame df0 =
     (let df = dropna df0 in
      case calculate_moving_averages df [50, 200] of
        (df, Some e) \<Rightarrow> Inl e
      | (df, None) \<Rightarrow>
          (case calculate_rsi df 14 of Inl e \<Rightarrow> Inl e
           | Inr rsi \<Rightarrow> Inr (setitem df ''RSI'' rsi)))"

text \<open>
  Dates and times, in seconds. An instant is counted from the epoch in UTC. A zone is the
  function that gives its UTC offset at an instant. An aware datetime of \<open>pytz\<close> is a
  wall-clock reading together with the fixed offset attached to it.
  \<^item> \<open>datetime.now(tz)\<close> reads the instant of the clock in the zone and attaches the
    offset the zone has at that instant.
  \<^item> \<open>dt - timedelta(days=n)\<close> moves the wall-clock reading and keeps the attached
    offset, also when the zone has another offset at the new date.
  \<^item> The instant an aware datetime denotes is its reading minus its attached offset.
  \<^item> \<open>pd.Timestamp(dt).tz_localize(None)\<close> takes the instant that \<open>dt\<close> denotes,
    reads it in the zone, with the offset the zone has at that instant, and drops the zone.
\<close>

definition day :: int where
  "day = 86400"

record aware =
  wall :: int
  fixed_offset :: int

definition datetime_now :: "(int \<Rightarrow> int) \<Rightarrow> int \<Rightarrow> aware" where
  "datetime_now zone u = \<lparr>wall = u + zone u, fixed_offset = zone u\<rparr>"

definition minus_days :: "aware \<Rightarrow> int \<Rightarrow> aware" where
  "minus_days dt n = dt\<lparr>wall := wall dt - n * day\<rparr>"

definition instant :: "aware \<Rightarrow> int" where
  "instant dt = wall dt - fixed_offset dt"

definition timestamp_tz_localize_None :: "(int \<Rightarrow> int) \<Rightarrow> aware \<Rightarrow> int" where
  "timestamp_tz_localize_None zone dt = instant dt + zone (instant dt)"

text \<open>
  The UTC offset of America/New_York at the instants from 2025-11-02 06:00 UTC to
  2026-11-01 06:00 UTC: standard time, 5 hours behind, until 2026-03-08 07:00 UTC, and
  daylight time, 4 hours behind, from then on. It serves for concrete inputs only; the
  definitions and the theorems take the zone as a parameter.
\<close>

definition new_york_2026 :: "int \<Rightarrow> int" where
  "new_york_2026 u = (if u < 1772953200 then - 18000 else - 14400)"

text \<open>
  Lines 74 to 82: the display window. The index of the model holds the wall-clock
  readings that \<open>df.index.tz_localize(None)\<close> leaves. \<open>None\<close> is the early
  \<open>return None\<close>.
\<close>

definition display_start :: "aware \<Rightarrow> int \<Rightarrow> aware" where
  "display_start end_date months = minus_days end_date (months * 30)"

definition select_display_window ::
  "(int \<Rightarrow> int) \<Rightarrow> frame \<Rightarrow> aware \<Rightarrow> int \<Rightarrow> frame option" where
  "select_display_window zone df end_date months =
     (let cutoff = timestamp_tz_localize_None zone (display_start end_date months);
          df_display = boolean_index df (map (\<lambda>t. t \<ge> cutoff) (index df))
      in if length (index df_display) = 0 then None else Some df_display)"

section \<open>Drawing the chart\<close>

text \<open>
  Arithmetic on the Python floats that \<open>float(row[...])\<close> and \<open>float(...iloc[...])\<close>
  deliver: \<open>abs\<close>, \<open>>=\<close>, the two-argument \<open>min\<close> (the first argument unless the second
  is smaller), multiplication, and the division of Python floats, which raises on a zero
  divisor.
\<close>

fun fabs :: "pyfloat \<Rightarrow> pyfloat" where
  "fabs (Fin a) = Fin \<bar>a\<bar>"
| "fabs PInf = PInf"
| "fabs NInf = PInf"
| "fabs NaN = NaN"

fun fge :: "pyfloat \<Rightarrow> pyfloat \<Rightarrow> bool" where
  "fge NaN _ = False"
| "fge _ NaN = False"
| "fge a b = (\<not> fgt b a)"

definition py_min :: "pyfloat \<Rightarrow> pyfloat \<Rightarrow> pyfloat" where
  "py_min a b = (if flt b a then b else a)"

fun fmul :: "pyfloat \<Rightarrow> pyfloat \<Rightarrow> pyfloat" where
  "fmul (Fin a) (Fin b) = Fin (a * b)"
| "fmul NaN _ = NaN"
| "fmul _ NaN = NaN"
| "fmul PInf (Fin b) = (if b > 0 then PInf else if b < 0 then NInf else NaN)"
| "fmul NInf (Fin b) = (if b > 0 then NInf else if b < 0 then PInf else NaN)"
| "fmul (Fin a) PInf = (if a > 0 then PInf else if a < 0 then NInf else NaN)"
| "fmul (Fin a) NInf = (if a > 0 then NInf else if a < 0 then PInf else NaN)"
| "fmul PInf PInf = PInf"
| "fmul PInf NInf = NInf"
| "fmul NInf PInf = NInf"
| "fmul NInf NInf = PInf"

definition pydiv :: "pyfloat \<Rightarrow> pyfloat \<Rightarrow> exn + pyfloat" where
  "pydiv a b = (if b = Fin 0 then Inl ZeroDivisionError else Inr (fdiv a b))"

text \<open>
  What is drawn on an axes: \<open>plot(xs, ys, color, linewidth)\<close> and
  \<open>bar(x, height, bottom, color)\<close>.
\<close>

datatype artist =
    Plot "real list" "pyfloat list" string real
  | Bar real pyfloat pyfloat string

text \<open>
  The body of the candlestick loop for the row at position \<open>idx\<close>. The cells are floats,
  so the conversions by \<open>float\<close> do not raise and the handler of
  \<open>(TypeError, ValueError)\<close> has nothing to catch; a missing column is a KeyError, which
  that handler lets through.
\<close>

definition candle :: "nat \<Rightarrow> pyfloat \<Rightarrow> pyfloat \<Rightarrow> pyfloat \<Rightarrow> pyfloat \<Rightarrow> artist list" where
  "candle idx open_price close_price high_price low_price =
     (let color = (if fge close_price open_price then ''g'' else ''r'');
          wick = Plot [real idx, real idx] [low_price, high_price] ''black'' (1 / 2);
          height = fabs (fsub close_price open_price);
          bottom = py_min close_price open_price
      in if fgt height (Fin 0) then [wick, Bar (real idx) height bottom color]
         else [wick, Plot [real idx - 3 / 10, real idx + 3 / 10] [close_price, close_price]
                       ''black'' 1])"

definition candle_row :: "frame \<Rightarrow> nat \<Rightarrow> exn + artist list" where
  "candle_row df idx =
     (case getitem df ''Open'' of Inl e \<Rightarrow> Inl e
      | Inr opens \<Rightarrow>
     (case getitem df ''Close'' of Inl e \<Rightarrow> Inl e
      | Inr closes \<Rightarrow>
     (case getitem df ''High'' of Inl e \<Rightarrow> Inl e
      | Inr highs \<Rightarrow>
     (case getitem df ''Low'' of Inl e \<Rightarrow> Inl e
      | Inr lows \<Rightarrow>
          Inr (candle idx (opens ! idx) (closes ! idx) (highs ! idx) (lows ! idx))))))"

fun draw_rows :: "(nat \<Rightarrow> exn + artist list) \<Rightarrow> nat list \<Rightarrow> exn + artist list list" where
  "draw_rows f [] = Inr []"
| "draw_rows f (i # rest) =
     (case f i of Inl e \<Rightarrow> Inl e
      | Inr a \<Rightarrow> (case draw_rows f rest of Inl e \<Rightarrow> Inl e | Inr as \<Rightarrow> Inr (a # as)))"

text \<open>One group of artists per row of the display window, in row order.\<close>

definition plot_candlesticks :: "frame \<Rightarrow> exn + artist list list" where
  "plot_candlesticks df = draw_rows (candle_row df) [0..<length (index df)]"

text \<open>
  A moving-average line: the positions and the values of the rows where the average is
  defined; nothing is drawn when there is none, or when the step raised.
\<close>

definition ma_overlay :: "frame \<Rightarrow> string \<Rightarrow> (real list \<times> pyfloat list) option" where
  "ma_overlay df name =
     (case getitem df name of Inl e \<Rightarrow> None
      | Inr ma \<Rightarrow>
          (let ma_values = filter (\<lambda>v. \<not> isna v) ma in
           if length ma_values > 0
           then Some (map (\<lambda>(i, val). real i) (filter (\<lambda>(i, val). \<not> isna val) (zip [0..<length ma] ma)),
                      ma_values)
           else None))"

text \<open>\<open>s.iloc[-k]\<close> for \<open>k \<ge> 1\<close>.\<close>

definition iloc_neg :: "'a list \<Rightarrow> nat \<Rightarrow> exn + 'a" where
  "iloc_neg xs k = (if 0 < k \<and> k \<le> length xs then Inr (xs ! (length xs - k)) else Inl IndexError)"

text \<open>\<open>range(0, stop, step)\<close> for a positive step.\<close>

definition py_range :: "nat \<Rightarrow> nat \<Rightarrow> nat list" where
  "py_range stop step = map (\<lambda>k. k * step) [0..<(stop + step - 1) div step]"

text \<open>Lines 150 to 153: the tick positions for a display window of \<open>n\<close> rows.\<close>

definition xtick_positions :: "nat \<Rightarrow> exn + nat list" where
  "xtick_positions n =
     (let num_ticks = min 6 n in
      if num_ticks = 0 then Inl ZeroDivisionError
      else (let tick_spacing = max 1 (n div num_ticks) in Inr (py_range n tick_spacing)))"

text \<open>
  Lines 168 to 176: the current price, the change and the percentage change shown in the
  price annotation.
\<close>

definition price_annotation :: "series \<Rightarrow> exn + pyfloat \<times> pyfloat \<times> pyfloat" where
  "price_annotation closes =
     (case iloc_neg closes 1 of Inl e \<Rightarrow> Inl e
      | Inr current_price \<Rightarrow>
          if length closes > 1 then
            (case iloc_neg closes 2 of Inl e \<Rightarrow> Inl e
             | Inr previous_close \<Rightarrow>
                 (let change = fsub current_price previous_close in
                  if previous_close \<noteq> Fin 0 then
                    (case pydiv change previous_close of Inl e \<Rightarrow> Inl e
                     | Inr q \<Rightarrow> Inr (current_price, change, fmul q (Fin 100)))
                  else Inr (current_price, change, Fin 0)))
          else Inr (current_price, Fin 0, Fin 0))"

text \<open>
  The figure, as far as it depends on the data: the candles, the two moving-average lines,
  the RSI line and its latest value, the ticks with their labels, and the price annotation
  (absent when that step raised). The reference lines, the band, the axis labels, the
  title, the legend and the grid are constant decorations.
\<close>

record figure =
  candles :: "artist list list"
  ma50_line :: "(real list \<times> pyfloat list) option"
  ma200_line :: "(real list \<times> pyfloat list) option"
  rsi_line :: "pyfloat list"
  current_rsi :: pyfloat
  xticks :: "nat list"
  xticklabels :: "string list"
  price_text :: "(pyfloat \<times> pyfloat \<times> pyfloat) option"

definition draw_figure :: "(int \<Rightarrow> string) \<Rightarrow> frame \<Rightarrow> exn + figure" where
  "draw_figure strftime_b_y df_display =
     (case plot_candlesticks df_display of Inl e \<Rightarrow> Inl e
      | Inr cs \<Rightarrow>
     (case getitem df_display ''RSI'' of Inl e \<Rightarrow> Inl e
      | Inr rsi_values \<Rightarrow>
     (case iloc_neg rsi_values 1 of Inl e \<Rightarrow> Inl e
      | Inr rsi_last \<Rightarrow>
     (case xtick_positions (length (index df_display)) of Inl e \<Rightarrow> Inl e
      | Inr ticks \<Rightarrow>
          Inr \<lparr>candles = cs,
               ma50_line = ma_overlay df_display ''MA50'',
               ma200_line = ma_overlay df_display ''MA200'',
               rsi_line = rsi_values,
               current_rsi = rsi_last,
               xticks = ticks,
               xticklabels = map (\<lambda>i. strftime_b_y (index df_display ! i)) ticks,
               price_text =
                 (case getitem df_display ''Close'' of Inl e \<Rightarrow> None
                  | Inr closes \<Rightarrow>
                      (case price_annotation closes of Inl e \<Rightarrow> None | Inr a \<Rightarrow> Some a))\<rparr>))))"

section \<open>create_stock_chart and the batch\<close>

type_synonym bytes = string

text \<open>
  The world outside the script: the clock (the instant of the call), the zone
  America/New_York, the data source (\<open>Ticker(t).history(start, end)\<close>, which returns a
  frame or raises; it is given the instants that \<open>start\<close> and \<open>end\<close> denote), the
  formatting of a timestamp by \<open>strftime('%b %y')\<close>, the two \<open>savefig\<close> calls, which
  encode the figure or raise, and the mail transport.
\<close>

record env =
  now :: int
  eastern :: "int \<Rightarrow> int"
  history :: "string \<Rightarrow> int \<Rightarrow> int \<Rightarrow> exn + frame"
  strftime :: "int \<Rightarrow> string"
  savefig_file :: "string \<Rightarrow> figure \<Rightarrow> exn option"
  savefig_buf :: "figure \<Rightarrow> exn + bytes"
  send_email_with_charts :: "(string \<times> bytes) list \<Rightarrow> bool"

text \<open>
  The \<open>try\<close> block of \<open>create_stock_chart\<close>: \<open>Inl\<close> is an exception that reaches the
  handler, \<open>Inr None\<close> one of the two early \<open>return None\<close>, \<open>Inr (Some buf)\<close> the buffer.
\<close>

definition create_stock_chart_body :: "env \<Rightarrow> string \<Rightarrow> int \<Rightarrow> bool \<Rightarrow> exn + bytes option" where
  "create_stock_chart_body w ticker months save_to_file =
     (let end_date = datetime_now (eastern w) (now w);
          start_date = minus_days end_date (months * 30 + 300)
      in case history w ticker (instant start_date) (instant end_date) of Inl e \<Rightarrow> Inl e
         | Inr df \<Rightarrow>
             if df_empty df then Inr None
             else (case prepare_frame df of Inl e \<Rightarrow> Inl e
                   | Inr df \<Rightarrow>
                       (case select_display_window (eastern w) df end_date months of None \<Rightarrow> Inr None
                        | Some df_display \<Rightarrow>
                            (case draw_figure (strftime w) df_display of Inl e \<Rightarrow> Inl e
                             | Inr fig \<Rightarrow>
                                 (case (if save_to_file then savefig_file w ticker fig else None) of
                                    Some e \<Rightarrow> Inl e
                                  | None \<Rightarrow>
                                      (case savefig_buf w fig of Inl e \<Rightarrow> Inl e
                                       | Inr buf \<Rightarrow> Inr (Some buf)))))))"

text \<open>The handler \<open>except Exception\<close> returns None.\<close>

definition create_stock_chart :: "env \<Rightarrow> string \<Rightarrow> int \<Rightarrow> bool \<Rightarrow> bytes option" where
  "create_stock_chart w ticker months save_to_file =
     (case create_stock_chart_body w ticker months save_to_file of Inl e \<Rightarrow> None | Inr r \<Rightarrow> r)"

definition TICKERS :: "string list" where
  "TICKERS = [''XBI'', ''HOOD'', ''UBER'', ''CIBR'', ''NLR'', ''RKLB'', ''COST'', ''QQQM'',
              ''SPLG'', ''HUMN'', ''KOID'', ''GOOGL'', ''NVDA'', ''RSP'', ''PLTR'']"

text \<open>
  The loop of \<open>generate_and_send_charts\<close> over the tickers, with its three lists; a buffer
  object is truthy, so the test \<open>if chart_buffer\<close> separates a buffer from None.
\<close>

fun process_tickers ::
  "env \<Rightarrow> string list \<Rightarrow> (string \<times> bytes) list \<times> string list \<times> string list
     \<Rightarrow> (string \<times> bytes) list \<times> string list \<times> string list" where
  "process_tickers w [] acc = acc"
| "process_tickers w (ticker # rest) (charts_data, successful, failed) =
     (case create_stock_chart w ticker 6 True of
        Some chart_buffer \<Rightarrow>
          process_tickers w rest (charts_data @ [(ticker, chart_buffer)], successful @ [ticker], failed)
      | None \<Rightarrow> process_tickers w rest (charts_data, successful, failed @ [ticker]))"

definition generate_and_send_charts :: "env \<Rightarrow> int" where
  "generate_and_send_charts w =
     (case process_tickers w TICKERS ([], [], []) of
        (charts_data, successful, failed) \<Rightarrow>
          if charts_data \<noteq> [] then (if send_email_with_charts w charts_data then 0 else 1)
          else 1)"

section \<open>Properties of the series operations\<close>

lemma diff_from_length [simp]: "length (diff_from p xs) = length xs"
  by (induction xs arbitrary: p) auto

lemma diff_from_nth:
  "i < length xs \<Longrightarrow> diff_from p xs ! i = fsub (xs ! i) (if i = 0 then p else xs ! (i - 1))"
proof (induction xs arbitrary: p i)
  case Nil then show ?case by simp
next
  case (Cons x xs)
  show ?case
  proof (cases i)
    case 0 then show ?thesis by simp
  next
    case (Suc j)
    with Cons.prems have "j < length xs" by simp
    from Cons.IH[OF this, of x] Suc show ?thesis by (cases j) auto
  qed
qed

lemma observations_map_Fin [simp]: "observations (map Fin rs) = rs"
  by (induction rs) auto

lemma inf_to_nan_map_Fin [simp]: "map inf_to_nan (map Fin rs) = map Fin rs"
  by (induction rs) auto

lemma window_map: "window w i (map f xs) = map f (window w i xs)"
  by (simp add: window_def drop_map take_map)

lemma length_window: "i < length xs \<Longrightarrow> length (window w i xs) = min w (Suc i)"
  by (auto simp: window_def)

lemma mean_at_Fin:
  "i < length rs \<Longrightarrow> mean_at w (map Fin rs) i =
     (if 0 < w \<and> w \<le> Suc i then Fin (sum_list (window w i rs) / real w) else NaN)"
proof -
  assume i: "i < length rs"
  have obs: "observations (window w i (map inf_to_nan (map Fin rs))) = window w i rs"
    by (simp only: inf_to_nan_map_Fin window_map observations_map_Fin)
  have len: "length (window w i rs) = min w (Suc i)" using i by (rule length_window)
  show ?thesis
    unfolding mean_at_def obs Let_def len by (auto simp: min_def)
qed

lemma length_observations_le: "length (observations xs) \<le> length xs"
  by (induction xs rule: observations.induct) auto

lemma mean_at_warmup:
  assumes "Suc i < w" "i < length xs" shows "mean_at w xs i = NaN"
proof -
  have "length (observations (window w i (map inf_to_nan xs))) \<le> length (window w i (map inf_to_nan xs))"
    by (rule length_observations_le)
  also have "\<dots> = min w (Suc i)" using assms by (simp add: length_window)
  finally show ?thesis using assms by (simp add: mean_at_def Let_def)
qed

lemma fsub_Fin [simp]: "fsub (Fin a) (Fin b) = Fin (a - b)" "fsub x NaN = NaN"
  by (simp_all add: fsub_def, cases x, simp_all)

lemma rsi_gain_raw_Fin: "rsi_gain_raw (map Fin cs) = map Fin (gains cs)"
  by (rule nth_equalityI)
     (auto simp: rsi_gain_raw_def where_else0_def diff_def gains_def diff_from_nth max_def)

lemma rsi_loss_raw_Fin: "rsi_loss_raw (map Fin cs) = map Fin (losses cs)"
  by (rule nth_equalityI)
     (auto simp: rsi_loss_raw_def where_else0_def diff_def losses_def diff_from_nth max_def flt_def)

lemma rsi_of_Fin:
  assumes "0 \<le> g" "0 \<le> l"
  shows "rsi_of (Fin g) (Fin l) =
     (if l \<noteq> 0 then Fin (100 - 100 / (1 + g / l)) else if g > 0 then Fin 100 else NaN)"
proof -
  have "l \<noteq> 0 \<Longrightarrow> 1 + g / l \<noteq> 0"
    using assms by (smt (verit) divide_nonneg_nonneg)
  then show ?thesis using assms by (auto simp: rsi_of_def Let_def)
qed

lemma window_conv_map:
  "i < length xs \<Longrightarrow> window w i xs = map ((!) xs) [Suc i - w..<Suc i]"
  by (rule nth_equalityI) (auto simp: window_def simp del: upt_Suc)

lemma sum_window_zero_iff:
  assumes "i < length xs" "\<forall>x\<in>set xs. (0::real) \<le> x"
  shows "sum_list (window w i xs) = 0 \<longleftrightarrow> (\<forall>k. Suc i - w \<le> k \<and> k \<le> i \<longrightarrow> xs ! k = 0)"
proof -
  have sub: "set (window w i xs) \<subseteq> set xs"
    by (auto simp: window_def dest: in_set_dropD in_set_takeD)
  have "sum_list (window w i xs) = 0 \<longleftrightarrow> (\<forall>x\<in>set (window w i xs). x = 0)"
    using sub assms(2) by (intro sum_list_nonneg_eq_0_iff) auto
  also have "\<dots> \<longleftrightarrow> (\<forall>k. Suc i - w \<le> k \<and> k \<le> i \<longrightarrow> xs ! k = 0)"
    unfolding window_conv_map[OF assms(1)] by auto
  finally show ?thesis .
qed

lemma gains_nonneg: "\<forall>x\<in>set (gains cs). 0 \<le> x" by (auto simp: gains_def)
lemma losses_nonneg: "\<forall>x\<in>set (losses cs). 0 \<le> x" by (auto simp: losses_def)

lemma sum_list_nonneg': "\<forall>x\<in>set xs. (0::real) \<le> x \<Longrightarrow> 0 \<le> sum_list (window w i xs)"
  by (rule sum_list_nonneg) (auto simp: window_def dest: in_set_dropD in_set_takeD)

lemma length_rolling_mean_nat [simp]: "length (rolling_mean_nat w xs) = length xs"
  by (simp add: rolling_mean_nat_def)

lemma rolling_mean_nat_nth: "i < length xs \<Longrightarrow> rolling_mean_nat w xs ! i = mean_at w xs i"
  by (simp add: rolling_mean_nat_def)

lemma length_rsi_gain_raw [simp]: "length (rsi_gain_raw close) = length close"
  by (simp add: rsi_gain_raw_def where_else0_def diff_def)

lemma length_rsi_loss_raw [simp]: "length (rsi_loss_raw close) = length close"
  by (simp add: rsi_loss_raw_def where_else0_def diff_def)

lemma calculate_rsi_Inr:
  assumes "getitem data ''Close'' = Inr close" "0 \<le> period"
  shows "calculate_rsi data period =
     Inr (map2 rsi_of (rolling_mean_nat (nat period) (rsi_gain_raw close))
                      (rolling_mean_nat (nat period) (rsi_loss_raw close)))"
  using assms by (simp add: calculate_rsi_def rolling_mean_def)

lemma rsi_of_saturates: "0 < g \<Longrightarrow> rsi_of (Fin g) (Fin 0) = Fin 100"
  by (simp add: rsi_of_def)

lemma rsi_of_flat: "rsi_of (Fin 0) (Fin 0) = NaN"
  by (simp add: rsi_of_def)

lemma all_Fin_conv: "(\<forall>c\<in>set close. \<exists>r. c = Fin r) \<Longrightarrow> close = map Fin (observations close)"
  by (induction close rule: observations.induct) auto

lemma gains_losses_zero_iff:
  assumes "0 < k" "k < length cs"
  shows "gains cs ! k = 0 \<and> losses cs ! k = 0 \<longleftrightarrow> cs ! k = cs ! (k - 1)"
  using assms by (auto simp: gains_def losses_def max_def)

lemma rsi_defined_iff:
  fixes cs :: "real list"
  assumes p: "0 < p" and i: "p \<le> i" "i < length cs"
  shows "map2 rsi_of (rolling_mean_nat p (rsi_gain_raw (map Fin cs)))
                     (rolling_mean_nat p (rsi_loss_raw (map Fin cs))) ! i \<noteq> NaN
         \<longleftrightarrow> (\<exists>j. i - p \<le> j \<and> j < i \<and> cs ! Suc j \<noteq> cs ! j)"
proof -
  let ?G = "sum_list (window p i (gains cs))" and ?L = "sum_list (window p i (losses cs))"
  have ig: "i < length (gains cs)" and il: "i < length (losses cs)"
    using i by (simp_all add: gains_def losses_def)
  have g: "rolling_mean_nat p (rsi_gain_raw (map Fin cs)) ! i = Fin (?G / real p)"
    using p i ig by (simp add: rolling_mean_nat_nth rsi_gain_raw_Fin mean_at_Fin)
  have l: "rolling_mean_nat p (rsi_loss_raw (map Fin cs)) ! i = Fin (?L / real p)"
    using p i il by (simp add: rolling_mean_nat_nth rsi_loss_raw_Fin mean_at_Fin)
  have G0: "0 \<le> ?G" by (rule sum_list_nonneg') (rule gains_nonneg)
  have L0: "0 \<le> ?L" by (rule sum_list_nonneg') (rule losses_nonneg)
  have e1: "map2 rsi_of (rolling_mean_nat p (rsi_gain_raw (map Fin cs)))
                    (rolling_mean_nat p (rsi_loss_raw (map Fin cs))) ! i
        = rsi_of (Fin (?G / real p)) (Fin (?L / real p))"
    using i g l by simp
  have e2: "rsi_of (Fin (?G / real p)) (Fin (?L / real p)) \<noteq> NaN \<longleftrightarrow> \<not> (?G = 0 \<and> ?L = 0)"
  proof -
    have gp: "0 < ?G / real p \<longleftrightarrow> ?G \<noteq> 0" using p G0 by (auto simp: zero_less_divide_iff)
    have lp: "?L / real p \<noteq> 0 \<longleftrightarrow> ?L \<noteq> 0" using p by simp
    have "0 \<le> ?G / real p" "0 \<le> ?L / real p" using G0 L0 by simp_all
    then have "rsi_of (Fin (?G / real p)) (Fin (?L / real p)) =
        (if ?L / real p \<noteq> 0 then Fin (100 - 100 / (1 + (?G / real p) / (?L / real p)))
         else if ?G / real p > 0 then Fin 100 else NaN)"
      by (rule rsi_of_Fin)
    then show ?thesis using p gp by auto
  qed
  have e3: "(?G = 0 \<and> ?L = 0) \<longleftrightarrow>
      (\<forall>k. Suc i - p \<le> k \<and> k \<le> i \<longrightarrow> gains cs ! k = 0 \<and> losses cs ! k = 0)"
    using sum_window_zero_iff[OF ig gains_nonneg] sum_window_zero_iff[OF il losses_nonneg]
    by auto
  have e4: "(\<forall>k. Suc i - p \<le> k \<and> k \<le> i \<longrightarrow> gains cs ! k = 0 \<and> losses cs ! k = 0)
     \<longleftrightarrow> (\<forall>k. Suc i - p \<le> k \<and> k \<le> i \<longrightarrow> cs ! k = cs ! (k - 1))"
  proof -
    have "gains cs ! k = 0 \<and> losses cs ! k = 0 \<longleftrightarrow> cs ! k = cs ! (k - 1)"
      if "Suc i - p \<le> k \<and> k \<le> i" for k
      using that i by (intro gains_losses_zero_iff) auto
    then show ?thesis by blast
  qed
  have e5: "(\<forall>k. Suc i - p \<le> k \<and> k \<le> i \<longrightarrow> cs ! k = cs ! (k - 1))
     \<longleftrightarrow> (\<forall>j. i - p \<le> j \<and> j < i \<longrightarrow> cs ! Suc j = cs ! j)"
  proof
    assume h: "\<forall>k. Suc i - p \<le> k \<and> k \<le> i \<longrightarrow> cs ! k = cs ! (k - 1)"
    show "\<forall>j. i - p \<le> j \<and> j < i \<longrightarrow> cs ! Suc j = cs ! j"
    proof (intro allI impI)
      fix j assume "i - p \<le> j \<and> j < i"
      then have "Suc i - p \<le> Suc j \<and> Suc j \<le> i" using i by auto
      with h have "cs ! Suc j = cs ! (Suc j - 1)" by blast
      then show "cs ! Suc j = cs ! j" by simp
    qed
  next
    assume h: "\<forall>j. i - p \<le> j \<and> j < i \<longrightarrow> cs ! Suc j = cs ! j"
    show "\<forall>k. Suc i - p \<le> k \<and> k \<le> i \<longrightarrow> cs ! k = cs ! (k - 1)"
    proof (intro allI impI)
      fix k assume k: "Suc i - p \<le> k \<and> k \<le> i"
      then have "0 < k" using i by auto
      then obtain j where j: "k = Suc j" by (cases k) auto
      with k i have "i - p \<le> j \<and> j < i" by auto
      with h j show "cs ! k = cs ! (k - 1)" by simp
    qed
  qed
  show ?thesis unfolding e1 e2 e3 e4 e5 by blast
qed

lemma rsi_warmup_nth:
  assumes "Suc i < p" "i < length close"
  shows "map2 rsi_of (rolling_mean_nat p (rsi_gain_raw close))
                     (rolling_mean_nat p (rsi_loss_raw close)) ! i = NaN"
proof -
  have "rolling_mean_nat p (rsi_gain_raw close) ! i = NaN"
    using assms by (simp add: rolling_mean_nat_nth mean_at_warmup)
  then show ?thesis using assms by (simp add: rsi_of_def)
qed

section \<open>Properties of calculate_rsi\<close>

text \<open>
  C1. Wherever the trailing mean of the losses is 0 and the trailing mean of the gains is
  positive, the RSI is exactly 100; wherever both means are 0 (flat price over the window)
  the RSI is absent (NaN). The call itself succeeds and returns a series aligned with the
  closes.
\<close>

theorem rsi_saturates_or_absent:
  assumes "getitem data ''Close'' = Inr close"
    and "rolling_mean period (rsi_gain_raw close) = Inr gain"
    and "rolling_mean period (rsi_loss_raw close) = Inr loss"
    and "i < length close"
  shows "\<exists>rsi. calculate_rsi data period = Inr rsi \<and> length rsi = length close \<and>
           ((\<exists>g>0. gain ! i = Fin g) \<and> loss ! i = Fin 0 \<longrightarrow> rsi ! i = Fin 100) \<and>
           (gain ! i = Fin 0 \<and> loss ! i = Fin 0 \<longrightarrow> rsi ! i = NaN)"
proof -
  have lens: "length gain = length close" "length loss = length close"
    using assms(2,3) by (auto simp: rolling_mean_def split: if_splits)
  have rsi: "calculate_rsi data period = Inr (map2 rsi_of gain loss)"
    using assms(1-3) by (simp add: calculate_rsi_def)
  have nth: "map2 rsi_of gain loss ! i = rsi_of (gain ! i) (loss ! i)"
    using lens assms(4) by simp
  show ?thesis
    unfolding rsi using lens nth by (auto simp: rsi_of_saturates rsi_of_flat)
qed

theorem rsi_saturates_or_absent_witness:
  "(\<exists>rsi. calculate_rsi \<lparr>index = [0, 1, 2], columns = [(''Close'', [Fin 1, Fin 2, Fin 3])]\<rparr> 2 = Inr rsi
          \<and> length rsi = 3 \<and> rsi ! 2 = Fin 100) \<and>
   (\<exists>rsi. calculate_rsi \<lparr>index = [0, 1, 2], columns = [(''Close'', [Fin 1, Fin 1, Fin 1])]\<rparr> 2 = Inr rsi
          \<and> length rsi = 3 \<and> rsi ! 2 = NaN)"
proof -
  let ?up = "[Fin 1, Fin 2, Fin 3]" and ?flat = "[Fin 1, Fin 1, Fin 1]"
  have c1: "getitem \<lparr>index = [0, 1, 2], columns = [(''Close'', ?up)]\<rparr> ''Close'' = Inr ?up"
    by (simp add: getitem_def)
  have g1: "rolling_mean 2 (rsi_gain_raw ?up) = Inr [NaN, Fin (1/2), Fin 1]" by code_simp
  have l1: "rolling_mean 2 (rsi_loss_raw ?up) = Inr [NaN, Fin 0, Fin 0]" by code_simp
  have c2: "getitem \<lparr>index = [0, 1, 2], columns = [(''Close'', ?flat)]\<rparr> ''Close'' = Inr ?flat"
    by (simp add: getitem_def)
  have g2: "rolling_mean 2 (rsi_gain_raw ?flat) = Inr [NaN, Fin 0, Fin 0]" by code_simp
  have l2: "rolling_mean 2 (rsi_loss_raw ?flat) = Inr [NaN, Fin 0, Fin 0]" by code_simp
  from rsi_saturates_or_absent[OF c1 g1 l1, of 2] rsi_saturates_or_absent[OF c2 g2 l2, of 2]
  show ?thesis by (simp add: numeral_3_eq_3)
qed

text \<open>
  C2, as the code has it. The first delta does not exist, and \<open>where(cond, 0)\<close> turns it
  into a gain and a loss of 0, so the rolling means are defined from row \<open>period - 1\<close> on:
  row 1 of a two-row series has an RSI for period 2. And a defined pair of means gives no
  RSI when both are 0.
\<close>

theorem rsi_warmup_counterexample:
  "calculate_rsi \<lparr>index = [0, 1], columns = [(''Close'', [Fin 1, Fin 2])]\<rparr> 2 = Inr [NaN, Fin 100] \<and>
   calculate_rsi \<lparr>index = [0, 1, 2], columns = [(''Close'', [Fin 1, Fin 1, Fin 1])]\<rparr> 2
     = Inr [NaN, NaN, NaN]"
  by code_simp

text \<open>
  C2, amended. For a period of at least 1 the result is aligned with the closes, it is
  absent at every row \<open>i < period - 1\<close>, and, when every close is finite, at a row
  \<open>i \<ge> period\<close> it is defined exactly when the closes of the rows \<open>i - period .. i\<close>
  are not all equal.
\<close>

theorem rsi_warmup:
  assumes "getitem data ''Close'' = Inr close" and "1 \<le> period"
  shows "\<exists>rsi. calculate_rsi data period = Inr rsi \<and> length rsi = length close \<and>
           (\<forall>i. int i < period - 1 \<and> i < length close \<longrightarrow> rsi ! i = NaN) \<and>
           ((\<forall>c\<in>set close. \<exists>r. c = Fin r) \<longrightarrow>
            (\<forall>i. period \<le> int i \<and> i < length close \<longrightarrow>
               (rsi ! i \<noteq> NaN \<longleftrightarrow>
                (\<exists>j. i - nat period \<le> j \<and> j < i \<and> close ! Suc j \<noteq> close ! j))))"
proof -
  let ?rsi = "map2 rsi_of (rolling_mean_nat (nat period) (rsi_gain_raw close))
                          (rolling_mean_nat (nat period) (rsi_loss_raw close))"
  have c: "calculate_rsi data period = Inr ?rsi"
    using assms by (intro calculate_rsi_Inr) auto
  have len: "length ?rsi = length close" by simp
  have warm: "\<forall>i. int i < period - 1 \<and> i < length close \<longrightarrow> ?rsi ! i = NaN"
  proof (intro allI impI)
    fix i assume "int i < period - 1 \<and> i < length close"
    then have "Suc i < nat period" "i < length close" by auto
    then show "?rsi ! i = NaN" by (rule rsi_warmup_nth)
  qed
  have def: "\<forall>i. period \<le> int i \<and> i < length close \<longrightarrow>
               (?rsi ! i \<noteq> NaN \<longleftrightarrow>
                (\<exists>j. i - nat period \<le> j \<and> j < i \<and> close ! Suc j \<noteq> close ! j))"
    if fin: "\<forall>c\<in>set close. \<exists>r. c = Fin r"
  proof (intro allI impI)
    fix i assume i: "period \<le> int i \<and> i < length close"
    define cs where "cs = observations close"
    have close: "close = map Fin cs" unfolding cs_def using fin by (rule all_Fin_conv)
    have p: "0 < nat period" "nat period \<le> i" "i < length cs"
      using assms(2) i close by auto
    have "\<And>j. j < i \<Longrightarrow> close ! Suc j \<noteq> close ! j \<longleftrightarrow> cs ! Suc j \<noteq> cs ! j"
      using p(3) unfolding close by simp
    then have "(\<exists>j. i - nat period \<le> j \<and> j < i \<and> close ! Suc j \<noteq> close ! j) \<longleftrightarrow>
               (\<exists>j. i - nat period \<le> j \<and> j < i \<and> cs ! Suc j \<noteq> cs ! j)" by blast
    with rsi_defined_iff[OF p] show "?rsi ! i \<noteq> NaN \<longleftrightarrow>
                (\<exists>j. i - nat period \<le> j \<and> j < i \<and> close ! Suc j \<noteq> close ! j)"
      unfolding close by simp
  qed
  from c len warm def show ?thesis by blast
qed

theorem rsi_warmup_witness:
  "\<exists>rsi. calculate_rsi
       \<lparr>index = [0, 1, 2, 3, 4], columns = [(''Close'', [Fin 1, Fin 2, Fin 3, Fin 3, Fin 3])]\<rparr> 2
         = Inr rsi \<and> length rsi = 5 \<and> rsi ! 0 = NaN \<and> rsi ! 2 \<noteq> NaN \<and> rsi ! 4 = NaN"
proof -
  let ?cl = "[Fin 1, Fin 2, Fin 3, Fin 3, Fin 3]"
  let ?D = "\<lparr>index = [0, 1, 2, 3, 4], columns = [(''Close'', ?cl)]\<rparr>"
  have c: "getitem ?D ''Close'' = Inr ?cl" by (simp add: getitem_def)
  have p: "(1::int) \<le> 2" by simp
  from rsi_warmup[OF c p] obtain rsi where r: "calculate_rsi ?D 2 = Inr rsi"
    and len: "length rsi = length ?cl"
    and warm: "\<forall>i. int i < 2 - 1 \<and> i < length ?cl \<longrightarrow> rsi ! i = NaN"
    and def: "(\<forall>c\<in>set ?cl. \<exists>r. c = Fin r) \<longrightarrow>
            (\<forall>i. 2 \<le> int i \<and> i < length ?cl \<longrightarrow>
               (rsi ! i \<noteq> NaN \<longleftrightarrow>
                (\<exists>j. i - nat 2 \<le> j \<and> j < i \<and> ?cl ! Suc j \<noteq> ?cl ! j)))"
    by blast
  have w0: "rsi ! 0 = NaN" using warm by simp
  have fin: "\<forall>c\<in>set ?cl. \<exists>r. c = Fin r" by simp
  have d2: "rsi ! 2 \<noteq> NaN \<longleftrightarrow> (\<exists>j. 2 - nat 2 \<le> j \<and> j < 2 \<and> ?cl ! Suc j \<noteq> ?cl ! j)"
    using def fin by (auto simp del: nth_Cons_Suc)
  have d4: "rsi ! 4 \<noteq> NaN \<longleftrightarrow> (\<exists>j. 4 - nat 2 \<le> j \<and> j < 4 \<and> ?cl ! Suc j \<noteq> ?cl ! j)"
    using def fin by (auto simp del: nth_Cons_Suc)
  have e2: "\<exists>j. 2 - nat 2 \<le> j \<and> j < (2::nat) \<and> ?cl ! Suc j \<noteq> ?cl ! j"
    by (rule exI[of _ 0]) simp
  have e4: "\<not> (\<exists>j. 4 - nat 2 \<le> j \<and> j < (4::nat) \<and> ?cl ! Suc j \<noteq> ?cl ! j)"
  proof
    assume "\<exists>j. 4 - nat 2 \<le> j \<and> j < (4::nat) \<and> ?cl ! Suc j \<noteq> ?cl ! j"
    then obtain j where j: "4 - nat 2 \<le> j" "j < 4" "?cl ! Suc j \<noteq> ?cl ! j" by blast
    then have "j = 2 \<or> j = 3" by auto
    with j(3) show False by auto
  qed
  from r len w0 d2 d4 e2 e4 show ?thesis by auto
qed

section \<open>Properties of calculate_moving_averages\<close>

lemma digit_char_inj: "a < 10 \<Longrightarrow> b < 10 \<Longrightarrow> digit_char a = digit_char b \<Longrightarrow> a = b"
  by (simp add: digit_char_def char_of_eq_iff take_bit_nat_eq_self)

lemma str_nat_nonempty: "str_nat n \<noteq> []"
  by (subst str_nat.simps) simp

lemma str_nat_inj: "str_nat n = str_nat m \<Longrightarrow> n = m"
proof (induction n arbitrary: m rule: str_nat.induct)
  case (1 n)
  show ?case
  proof (cases "n < 10")
    case n: True
    show ?thesis
    proof (cases "m < 10")
      case True
      with n "1.prems" show ?thesis
        by (subst (asm) str_nat.simps, subst (asm) (2) str_nat.simps) (simp add: digit_char_inj)
    next
      case False
      with n "1.prems" str_nat_nonempty[of "m div 10"] show ?thesis
        by (subst (asm) str_nat.simps, subst (asm) (2) str_nat.simps) simp
    qed
  next
    case n: False
    show ?thesis
    proof (cases "m < 10")
      case True
      with n "1.prems" str_nat_nonempty[of "n div 10"] show ?thesis
        by (subst (asm) str_nat.simps, subst (asm) (2) str_nat.simps) simp
    next
      case False
      with n "1.prems" have eq: "str_nat (n div 10) = str_nat (m div 10)"
        and d: "digit_char (n mod 10) = digit_char (m mod 10)"
        by (subst (asm) str_nat.simps, subst (asm) (2) str_nat.simps, simp)+
      from "1.IH"[OF n eq] have "n div 10 = m div 10" .
      moreover from d have "n mod 10 = m mod 10" by (intro digit_char_inj) auto
      ultimately show ?thesis by (metis div_mult_mod_eq)
    qed
  qed
qed

lemma str_int_inj: "0 \<le> p \<Longrightarrow> 0 \<le> q \<Longrightarrow> str_int p = str_int q \<Longrightarrow> p = q"
proof -
  assume "0 \<le> p" "0 \<le> q" "str_int p = str_int q"
  then have "str_nat (nat p) = str_nat (nat q)" by (simp add: str_int_def)
  then have "nat p = nat q" by (rule str_nat_inj)
  with \<open>0 \<le> p\<close> \<open>0 \<le> q\<close> show "p = q" by simp
qed

lemma map_of_set_col: "map_of (set_col c s kvs) = (map_of kvs)(c \<mapsto> s)"
  by (induction kvs) (auto simp: fun_eq_iff)

lemma getitem_setitem:
  "getitem (setitem df c s) c' = (if c' = c then Inr s else getitem df c')"
  by (simp add: getitem_def setitem_def map_of_set_col)

lemma index_setitem [simp]: "index (setitem df c s) = index df"
  by (simp add: setitem_def)

lemma calculate_moving_averages_ok:
  assumes "getitem df ''Close'' = Inr close" "\<forall>p\<in>set periods. 0 \<le> p"
  shows "\<exists>df'. calculate_moving_averages df periods = (df', None) \<and> index df' = index df \<and>
     (\<forall>c. c \<notin> (\<lambda>p. ''MA'' @ str_int p) ` set periods \<longrightarrow> getitem df' c = getitem df c) \<and>
     (\<forall>p\<in>set periods. getitem df' (''MA'' @ str_int p) = Inr (rolling_mean_nat (nat p) close))"
  using assms
proof (induction periods arbitrary: df)
  case Nil then show ?case by simp
next
  case (Cons p ps)
  let ?ma = "rolling_mean_nat (nat p) close"
  let ?df1 = "setitem df (''MA'' @ str_int p) ?ma"
  have p: "0 \<le> p" and ps: "\<forall>q\<in>set ps. 0 \<le> q" using Cons.prems(2) by auto
  have c1: "getitem ?df1 ''Close'' = Inr close"
    using Cons.prems(1) by (simp add: getitem_setitem)
  from Cons.IH[OF c1 ps] obtain df' where
    r: "calculate_moving_averages ?df1 ps = (df', None)" and ix: "index df' = index ?df1"
    and other: "\<forall>c. c \<notin> (\<lambda>p. ''MA'' @ str_int p) ` set ps \<longrightarrow> getitem df' c = getitem ?df1 c"
    and mas: "\<forall>q\<in>set ps. getitem df' (''MA'' @ str_int q) = Inr (rolling_mean_nat (nat q) close)"
    by blast
  have step: "calculate_moving_averages df (p # ps) = (df', None)"
    using Cons.prems(1) p r by (simp add: rolling_mean_def)
  have "getitem df' (''MA'' @ str_int p) = Inr ?ma"
  proof (cases "p \<in> set ps")
    case True with mas show ?thesis by blast
  next
    case False
    have "''MA'' @ str_int p \<notin> (\<lambda>p. ''MA'' @ str_int p) ` set ps"
    proof
      assume "''MA'' @ str_int p \<in> (\<lambda>p. ''MA'' @ str_int p) ` set ps"
      then obtain q where q: "q \<in> set ps" "str_int p = str_int q" by auto
      with ps have "0 \<le> q" by blast
      from str_int_inj[OF p this q(2)] q(1) False show False by simp
    qed
    with other show ?thesis by (simp add: getitem_setitem)
  qed
  moreover have "\<forall>c. c \<notin> (\<lambda>p. ''MA'' @ str_int p) ` set (p # ps) \<longrightarrow> getitem df' c = getitem df c"
    using other by (auto simp: getitem_setitem)
  ultimately show ?case using step ix mas by auto
qed

lemma inf_to_nan_all_Fin: "\<forall>c\<in>set xs. \<exists>r. c = Fin r \<Longrightarrow> map inf_to_nan xs = xs"
  by (induction xs) auto

lemma length_observations_all_Fin:
  "\<forall>c\<in>set xs. \<exists>r. c = Fin r \<Longrightarrow> length (observations xs) = length xs"
  by (induction xs) auto

lemma mean_at_first_window:
  assumes "0 < w" "w \<le> length xs" "\<forall>c\<in>set (take w xs). \<exists>r. c = Fin r"
  shows "mean_at w xs (w - 1) = Fin (sum_list (observations (take w xs)) / real w)"
proof -
  have "window w (w - 1) (map inf_to_nan xs) = map inf_to_nan (take w xs)"
    using assms(1) by (simp add: window_def take_map)
  also have "\<dots> = take w xs" using assms(3) by (rule inf_to_nan_all_Fin)
  finally have win: "window w (w - 1) (map inf_to_nan xs) = take w xs" .
  have len: "length (observations (take w xs)) = w"
    using length_observations_all_Fin[OF assms(3)] assms(2) by simp
  show ?thesis unfolding mean_at_def win Let_def len using assms(1) by simp
qed

text \<open>
  C3. For a frame with a Close column and periods of at least 1, the call returns normally
  and, for each period \<open>p\<close> of the list (50 and 200 in the system), the column \<open>MAp\<close> of
  the result is aligned with the closes, is absent (NaN) at the first \<open>p - 1\<close> rows, and,
  when the series has at least \<open>p\<close> rows whose first \<open>p\<close> closes are finite, holds at row
  \<open>p - 1\<close> the arithmetic mean of the first \<open>p\<close> closes.
\<close>

theorem moving_average_warmup:
  assumes "getitem df ''Close'' = Inr close" and "\<forall>p\<in>set periods. 1 \<le> p"
  shows "\<exists>df'. calculate_moving_averages df periods = (df', None) \<and>
     (\<forall>p\<in>set periods. \<exists>ma. getitem df' (''MA'' @ str_int p) = Inr ma \<and>
        length ma = length close \<and>
        (\<forall>i. int i < p - 1 \<and> i < length close \<longrightarrow> ma ! i = NaN) \<and>
        (p \<le> int (length close) \<and> (\<forall>c\<in>set (take (nat p) close). \<exists>r. c = Fin r) \<longrightarrow>
           ma ! (nat p - 1) = Fin (sum_list (observations (take (nat p) close)) / real (nat p))))"
proof -
  have nonneg: "\<forall>p\<in>set periods. 0 \<le> p" using assms(2) by force
  from calculate_moving_averages_ok[OF assms(1) nonneg] obtain df' where
    r: "calculate_moving_averages df periods = (df', None)"
    and mas: "\<forall>p\<in>set periods. getitem df' (''MA'' @ str_int p) = Inr (rolling_mean_nat (nat p) close)"
    by blast
  have "\<exists>ma. getitem df' (''MA'' @ str_int p) = Inr ma \<and>
        length ma = length close \<and>
        (\<forall>i. int i < p - 1 \<and> i < length close \<longrightarrow> ma ! i = NaN) \<and>
        (p \<le> int (length close) \<and> (\<forall>c\<in>set (take (nat p) close). \<exists>r. c = Fin r) \<longrightarrow>
           ma ! (nat p - 1) = Fin (sum_list (observations (take (nat p) close)) / real (nat p)))"
    if p: "p \<in> set periods" for p
  proof -
    let ?ma = "rolling_mean_nat (nat p) close"
    have p1: "1 \<le> p" using assms(2) p by blast
    have g: "getitem df' (''MA'' @ str_int p) = Inr ?ma" using mas p by blast
    have warm: "\<forall>i. int i < p - 1 \<and> i < length close \<longrightarrow> ?ma ! i = NaN"
    proof (intro allI impI)
      fix i assume "int i < p - 1 \<and> i < length close"
      then have "Suc i < nat p" "i < length close" by auto
      then show "?ma ! i = NaN" by (simp add: rolling_mean_nat_nth mean_at_warmup)
    qed
    have first: "?ma ! (nat p - 1) = Fin (sum_list (observations (take (nat p) close)) / real (nat p))"
      if h: "p \<le> int (length close) \<and> (\<forall>c\<in>set (take (nat p) close). \<exists>r. c = Fin r)"
    proof -
      have w: "0 < nat p" "nat p \<le> length close" using p1 h by auto
      then have "nat p - 1 < length close" by auto
      then have "?ma ! (nat p - 1) = mean_at (nat p) close (nat p - 1)"
        by (rule rolling_mean_nat_nth)
      also have "\<dots> = Fin (sum_list (observations (take (nat p) close)) / real (nat p))"
        using w h by (intro mean_at_first_window) auto
      finally show ?thesis .
    qed
    from g warm first show ?thesis by simp
  qed
  with r show ?thesis by blast
qed

theorem moving_average_warmup_witness:
  "\<exists>df'. calculate_moving_averages
       \<lparr>index = [0, 1, 2, 3], columns = [(''Close'', [Fin 1, Fin 2, Fin 6, Fin 4])]\<rparr> [2, 3]
         = (df', None) \<and>
     (\<exists>ma. getitem df' ''MA2'' = Inr ma \<and> length ma = 4 \<and> ma ! 0 = NaN \<and> ma ! 1 = Fin (3 / 2)) \<and>
     (\<exists>ma. getitem df' ''MA3'' = Inr ma \<and> length ma = 4 \<and> ma ! 0 = NaN \<and> ma ! 1 = NaN \<and>
           ma ! 2 = Fin 3)"
proof -
  let ?cl = "[Fin 1, Fin 2, Fin 6, Fin 4]"
  let ?D = "\<lparr>index = [0, 1, 2, 3], columns = [(''Close'', ?cl)]\<rparr>"
  have c: "getitem ?D ''Close'' = Inr ?cl" by (simp add: getitem_def)
  have ps: "\<forall>p\<in>set [2, 3::int]. 1 \<le> p" by simp
  have s2: "''MA'' @ str_int 2 = ''MA2''" and s3: "''MA'' @ str_int 3 = ''MA3''" by code_simp+
  from moving_average_warmup[OF c ps] obtain df' where
    r: "calculate_moving_averages ?D [2, 3] = (df', None)"
    and mas: "\<forall>p\<in>set [2, 3::int]. \<exists>ma. getitem df' (''MA'' @ str_int p) = Inr ma \<and>
        length ma = length ?cl \<and>
        (\<forall>i. int i < p - 1 \<and> i < length ?cl \<longrightarrow> ma ! i = NaN) \<and>
        (p \<le> int (length ?cl) \<and> (\<forall>c\<in>set (take (nat p) ?cl). \<exists>r. c = Fin r) \<longrightarrow>
           ma ! (nat p - 1) = Fin (sum_list (observations (take (nat p) ?cl)) / real (nat p)))"
    by blast
  from mas obtain ma2 where m2: "getitem df' ''MA2'' = Inr ma2" "length ma2 = length ?cl"
    "\<forall>i. int i < 2 - 1 \<and> i < length ?cl \<longrightarrow> ma2 ! i = NaN"
    "2 \<le> int (length ?cl) \<and> (\<forall>c\<in>set (take (nat 2) ?cl). \<exists>r. c = Fin r) \<longrightarrow>
           ma2 ! (nat 2 - 1) = Fin (sum_list (observations (take (nat 2) ?cl)) / real (nat 2))"
    unfolding s2[symmetric] by fastforce
  from mas obtain ma3 where m3: "getitem df' ''MA3'' = Inr ma3" "length ma3 = length ?cl"
    "\<forall>i. int i < 3 - 1 \<and> i < length ?cl \<longrightarrow> ma3 ! i = NaN"
    "3 \<le> int (length ?cl) \<and> (\<forall>c\<in>set (take (nat 3) ?cl). \<exists>r. c = Fin r) \<longrightarrow>
           ma3 ! (nat 3 - 1) = Fin (sum_list (observations (take (nat 3) ?cl)) / real (nat 3))"
    unfolding s3[symmetric] by fastforce
  have a2: "ma2 ! 0 = NaN" using m2(3) by simp
  have b2: "ma2 ! 1 = Fin (3 / 2)" using m2(4) by (simp add: numeral_2_eq_2)
  have a3: "ma3 ! 0 = NaN" "ma3 ! 1 = NaN" using m3(3) by simp_all
  have b3: "ma3 ! 2 = Fin 3" using m3(4) by (simp add: numeral_3_eq_3 numeral_2_eq_2)
  from r m2(1,2) m3(1,2) a2 b2 a3 b3 show ?thesis by auto
qed

text \<open>
  C9, as the code has it: \<open>calculate_moving_averages\<close> assigns into the frame it was
  given, so after the call the input holds two columns it did not hold before.
\<close>

theorem indicator_purity_counterexample:
  "calculate_moving_averages \<lparr>index = [0], columns = [(''Close'', [Fin 1])]\<rparr> [50, 200] =
     (\<lparr>index = [0],
       columns = [(''Close'', [Fin 1]), (''MA50'', [NaN]), (''MA200'', [NaN])]\<rparr>, None)"
  by code_simp

text \<open>
  C9, amended. \<open>calculate_moving_averages\<close> changes its input and nothing else of it than
  the moving-average columns: for a frame with a Close column and non-negative periods the
  call returns normally, the object it was given (which is the object it returns) has the
  index it had, every column other than the \<open>MAp\<close> of the periods reads as before (Close
  among them; a name that was absent stays absent), and each \<open>MAp\<close> holds the rolling
  mean of the closes. \<open>calculate_rsi\<close> leaves its argument as it was.
\<close>

theorem moving_averages_frame_effect:
  assumes "getitem df ''Close'' = Inr close" and "\<forall>p\<in>set periods. 0 \<le> p"
  shows "fst (calculate_rsi_call df period) = df \<and>
     (\<exists>df'. calculate_moving_averages df periods = (df', None) \<and> index df' = index df \<and>
       (\<forall>c. c \<notin> (\<lambda>p. ''MA'' @ str_int p) ` set periods \<longrightarrow> getitem df' c = getitem df c) \<and>
       (\<forall>p\<in>set periods. getitem df' (''MA'' @ str_int p) = Inr (rolling_mean_nat (nat p) close)))"
  using calculate_moving_averages_ok[OF assms] by (simp add: calculate_rsi_call_def)

theorem moving_averages_frame_effect_witness:
  "\<exists>df'. calculate_moving_averages
       \<lparr>index = [0, 1], columns = [(''Open'', [Fin 3, Fin 4]), (''Close'', [Fin 1, Fin 2])]\<rparr> [2]
         = (df', None) \<and> index df' = [0, 1] \<and>
       getitem df' ''Open'' = Inr [Fin 3, Fin 4] \<and> getitem df' ''Close'' = Inr [Fin 1, Fin 2] \<and>
       getitem df' ''Volume'' = Inl KeyError \<and> getitem df' ''MA2'' = Inr [NaN, Fin (3 / 2)] \<and>
       fst (calculate_rsi_call
              \<lparr>index = [0, 1], columns = [(''Open'', [Fin 3, Fin 4]), (''Close'', [Fin 1, Fin 2])]\<rparr> 14)
         = \<lparr>index = [0, 1], columns = [(''Open'', [Fin 3, Fin 4]), (''Close'', [Fin 1, Fin 2])]\<rparr>"
proof -
  let ?D = "\<lparr>index = [0, 1], columns = [(''Open'', [Fin 3, Fin 4]), (''Close'', [Fin 1, Fin 2])]\<rparr>"
  have c: "getitem ?D ''Close'' = Inr [Fin 1, Fin 2]" by (simp add: getitem_def)
  have ps: "\<forall>p\<in>set [2::int]. 0 \<le> p" by simp
  have s2: "''MA'' @ str_int 2 = ''MA2''" by code_simp
  have s2': "str_int 2 = ''2''" by code_simp
  have rm: "rolling_mean_nat 2 [Fin 1, Fin 2] = [NaN, Fin (3 / 2)]" by code_simp
  from moving_averages_frame_effect[OF c ps, of 14] obtain df' where
    rsi: "fst (calculate_rsi_call ?D 14) = ?D"
    and r: "calculate_moving_averages ?D [2] = (df', None)" and ix: "index df' = index ?D"
    and other: "\<forall>c. c \<notin> (\<lambda>p. ''MA'' @ str_int p) ` set [2] \<longrightarrow> getitem df' c = getitem ?D c"
    and mas: "\<forall>p\<in>set [2::int]. getitem df' (''MA'' @ str_int p) = Inr (rolling_mean_nat (nat p) [Fin 1, Fin 2])"
    by blast
  have o: "getitem df' ''Open'' = getitem ?D ''Open''" using other by (simp add: s2)
  have cl: "getitem df' ''Close'' = getitem ?D ''Close''" using other by (simp add: s2)
  have v: "getitem df' ''Volume'' = getitem ?D ''Volume''" using other by (simp add: s2)
  have m: "getitem df' ''MA2'' = Inr [NaN, Fin (3 / 2)]" using mas by (simp add: s2' rm)
  from rsi r ix o cl v m show ?thesis by (simp add: getitem_def)
qed

section \<open>Properties of the display window\<close>

lemma select_rows_Nil [simp]: "select_rows [] xs = []" "select_rows msk [] = []"
  by (simp_all add: select_rows_def)

lemma select_rows_Cons [simp]:
  "select_rows (b # msk) (x # xs) = (if b then x # select_rows msk xs else select_rows msk xs)"
  by (simp add: select_rows_def)

lemma select_rows_self: "select_rows (map P ts) ts = filter P ts"
  by (induction ts) auto

lemma select_rows_conv_filter:
  "select_rows (map P ts) s = map snd (filter (\<lambda>(t, v). P t) (zip ts s))"
  by (induction ts s rule: list_induct2') auto

lemma index_boolean_index [simp]: "index (boolean_index df msk) = select_rows msk (index df)"
  by (simp add: boolean_index_def)

lemma map_of_map_cols:
  "map_of (map (\<lambda>(c, s). (c, f s)) cols) c = map_option f (map_of cols c)"
  by (induction cols) auto

lemma getitem_boolean_index:
  "getitem (boolean_index df msk) c =
     (case getitem df c of Inl e \<Rightarrow> Inl e | Inr s \<Rightarrow> Inr (select_rows msk s))"
  by (simp add: getitem_def boolean_index_def map_of_map_cols split: option.splits)

lemma names_boolean_index: "map fst (columns (boolean_index df msk)) = map fst (columns df)"
  by (simp add: boolean_index_def case_prod_unfold comp_def)

lemma instant_datetime_now [simp]: "instant (datetime_now zone u) = u"
  by (simp add: instant_def datetime_now_def)

lemma instant_minus_days [simp]: "instant (minus_days dt n) = instant dt - n * 86400"
  by (simp add: instant_def minus_days_def day_def)

lemma cutoff_conv:
  "timestamp_tz_localize_None zone (display_start (datetime_now zone u) months) =
     (u - months * 30 * 86400) + zone (u - months * 30 * 86400)"
  by (simp add: timestamp_tz_localize_None_def display_start_def)

lemma create_stock_chart_empty_window:
  assumes "history w ticker (now w - (months * 30 + 300) * 86400) (now w) = Inr df0"
    and "\<not> df_empty df0" and "prepare_frame df0 = Inr df"
    and "select_display_window (eastern w) df (datetime_now (eastern w) (now w)) months = None"
  shows "create_stock_chart w ticker months save_to_file = None"
  using assms by (simp add: create_stock_chart_def create_stock_chart_body_def Let_def)

text \<open>
  C4, as the code has it. The cutoff is not the wall-clock reading of now minus
  \<open>months * 30\<close> days when the zone changes its offset in between: on 2026-06-01 at 00:30
  in New York (daylight time) the reading of now minus 180 days is 2025-12-03 00:30, but
  the row of 2025-12-03 00:00, which is before it, is retained, because the cutoff is read
  in standard time: 2025-12-02 23:30.
\<close>

theorem display_window_selection_counterexample:
  "select_display_window new_york_2026
     \<lparr>index = [1764720000, 1764806400], columns = [(''Close'', [Fin 1, Fin 2])]\<rparr>
     (datetime_now new_york_2026 1780288200) 6
     = Some \<lparr>index = [1764720000, 1764806400], columns = [(''Close'', [Fin 1, Fin 2])]\<rparr> \<and>
   wall (datetime_now new_york_2026 1780288200) - 6 * 30 * 86400 = 1764721800 \<and>
   (1764720000 :: int) < 1764721800"
  by code_simp

text \<open>
  C4, amended. With \<open>u\<close> the instant of now, the cutoff is the reading in the zone of the
  instant \<open>u - months * 30 * 86400\<close> seconds: it is the wall-clock reading of now minus
  \<open>months * 30\<close> days when the zone has the same offset at both instants (and differs from
  it by the change of the offset otherwise). The display window is empty exactly when no
  row has a timestamp at or after the cutoff; otherwise it holds exactly the rows at or
  after the cutoff, in order, under the same column names, and every column, the indicator
  columns included, keeps the values of the retained rows. With an empty window
  \<open>create_stock_chart\<close> returns None.
\<close>

theorem display_window_selection:
  "(zone (u - months * 30 * 86400) = zone u \<longrightarrow>
      timestamp_tz_localize_None zone (display_start (datetime_now zone u) months) =
        wall (datetime_now zone u) - months * 30 * 86400) \<and>
   (select_display_window zone df (datetime_now zone u) months = None \<longleftrightarrow>
      (\<forall>t\<in>set (index df). t < (u - months * 30 * 86400) + zone (u - months * 30 * 86400))) \<and>
   (\<forall>dw. select_display_window zone df (datetime_now zone u) months = Some dw \<longrightarrow>
      index dw =
        filter (\<lambda>t. (u - months * 30 * 86400) + zone (u - months * 30 * 86400) \<le> t) (index df) \<and>
      map fst (columns dw) = map fst (columns df) \<and>
      (\<forall>c s. getitem df c = Inr s \<longrightarrow>
         getitem dw c =
           Inr (map snd (filter (\<lambda>(t, v). (u - months * 30 * 86400) + zone (u - months * 30 * 86400) \<le> t)
                          (zip (index df) s))))) \<and>
   (history w ticker (now w - (months * 30 + 300) * 86400) (now w) = Inr df0 \<and>
    \<not> df_empty df0 \<and> prepare_frame df0 = Inr pf \<and>
    select_display_window (eastern w) pf (datetime_now (eastern w) (now w)) months = None \<longrightarrow>
      create_stock_chart w ticker months save_to_file = None)"
proof -
  let ?cut = "(u - months * 30 * 86400) + zone (u - months * 30 * 86400)"
  let ?P = "\<lambda>t. ?cut \<le> t"
  let ?dw = "boolean_index df (map ?P (index df))"
  have z: "zone (u - months * 30 * 86400) = zone u \<longrightarrow>
      timestamp_tz_localize_None zone (display_start (datetime_now zone u) months) =
        wall (datetime_now zone u) - months * 30 * 86400"
    unfolding cutoff_conv by (simp add: datetime_now_def)
  have sel: "select_display_window zone df (datetime_now zone u) months =
      (if filter ?P (index df) = [] then None else Some ?dw)"
    by (simp add: select_display_window_def cutoff_conv Let_def select_rows_self)
  have a: "select_display_window zone df (datetime_now zone u) months = None \<longleftrightarrow>
      (\<forall>t\<in>set (index df). t < ?cut)"
    unfolding sel by (simp add: filter_empty_conv not_le)
  have b: "index dw = filter ?P (index df) \<and> map fst (columns dw) = map fst (columns df) \<and>
      (\<forall>c s. getitem df c = Inr s \<longrightarrow>
         getitem dw c = Inr (map snd (filter (\<lambda>(t, v). ?P t) (zip (index df) s))))"
    if "select_display_window zone df (datetime_now zone u) months = Some dw" for dw
  proof -
    from that have dw: "dw = ?dw" unfolding sel by (simp split: if_splits)
    show ?thesis unfolding dw
      by (simp add: select_rows_self names_boolean_index getitem_boolean_index
            select_rows_conv_filter)
  qed
  have c: "history w ticker (now w - (months * 30 + 300) * 86400) (now w) = Inr df0 \<and>
    \<not> df_empty df0 \<and> prepare_frame df0 = Inr pf \<and>
    select_display_window (eastern w) pf (datetime_now (eastern w) (now w)) months = None \<longrightarrow>
      create_stock_chart w ticker months save_to_file = None"
    using create_stock_chart_empty_window by blast
  from z a b c show ?thesis by blast
qed

theorem display_window_selection_witness:
  "timestamp_tz_localize_None new_york_2026 (display_start (datetime_now new_york_2026 1780288200) 1)
     = wall (datetime_now new_york_2026 1780288200) - 1 * 30 * 86400 \<and>
   (\<exists>dw. select_display_window new_york_2026
        \<lparr>index = [1764633600, 1764720000, 1764806400],
         columns = [(''Close'', [Fin 1, Fin 2, Fin 3]), (''MA2'', [NaN, Fin (3 / 2), Fin (5 / 2)])]\<rparr>
        (datetime_now new_york_2026 1780288200) 6 = Some dw \<and>
      index dw = [1764720000, 1764806400] \<and> getitem dw ''Close'' = Inr [Fin 2, Fin 3] \<and>
      getitem dw ''MA2'' = Inr [Fin (3 / 2), Fin (5 / 2)]) \<and>
   create_stock_chart
     \<lparr>now = 1780288200, eastern = new_york_2026,
      history = (\<lambda>t s e. Inr \<lparr>index = [0], columns = [(''Open'', [Fin 1]), (''High'', [Fin 2]),
                                  (''Low'', [Fin 1]), (''Close'', [Fin 2])]\<rparr>),
      strftime = (\<lambda>t. ''Jan 70''), savefig_file = (\<lambda>t f. None),
      savefig_buf = (\<lambda>f. Inr ''png''), send_email_with_charts = (\<lambda>c. True)\<rparr>
     ''XBI'' 6 False = None"
proof -
  let ?F = "\<lparr>index = [1764633600, 1764720000, 1764806400],
         columns = [(''Close'', [Fin 1, Fin 2, Fin 3]), (''MA2'', [NaN, Fin (3 / 2), Fin (5 / 2)])]\<rparr>"
  let ?df0 = "\<lparr>index = [0], columns = [(''Open'', [Fin 1]), (''High'', [Fin 2]),
                                  (''Low'', [Fin 1]), (''Close'', [Fin 2])]\<rparr>"
  let ?W = "\<lparr>now = 1780288200, eastern = new_york_2026, history = (\<lambda>t s e. Inr ?df0),
      strftime = (\<lambda>t. ''Jan 70''), savefig_file = (\<lambda>t f. None),
      savefig_buf = (\<lambda>f. Inr ''png''), send_email_with_charts = (\<lambda>c. True)\<rparr>"
  let ?pf = "\<lparr>index = [0], columns = [(''Open'', [Fin 1]), (''High'', [Fin 2]),
                (''Low'', [Fin 1]), (''Close'', [Fin 2]), (''MA50'', [NaN]), (''MA200'', [NaN]),
                (''RSI'', [NaN])]\<rparr>"
  note t0 = display_window_selection[of new_york_2026 1780288200 1 ?F ?W "''XBI''" ?df0 ?pf False]
  note t1 = display_window_selection[of new_york_2026 1780288200 6 ?F ?W "''XBI''" ?df0 ?pf False]
  note t2 = display_window_selection[of new_york_2026 1780288200 6 ?pf ?W "''XBI''" ?df0 ?pf False]
  have same: "new_york_2026 (1780288200 - 1 * 30 * 86400) = new_york_2026 1780288200"
    by (simp add: new_york_2026_def)
  with t0 have w0: "timestamp_tz_localize_None new_york_2026
       (display_start (datetime_now new_york_2026 1780288200) 1)
     = wall (datetime_now new_york_2026 1780288200) - 1 * 30 * 86400" by blast
  have cut: "(1780288200 - 6 * 30 * 86400) + new_york_2026 (1780288200 - 6 * 30 * 86400)
     = (1764718200 :: int)" by (simp add: new_york_2026_def)
  have "\<not> (\<forall>t\<in>set (index ?F). t < (1780288200 - 6 * 30 * 86400)
                 + new_york_2026 (1780288200 - 6 * 30 * 86400))"
    unfolding cut by simp
  with t1 have "select_display_window new_york_2026 ?F (datetime_now new_york_2026 1780288200) 6
                  \<noteq> None" by blast
  then obtain dw where
    dw: "select_display_window new_york_2026 ?F (datetime_now new_york_2026 1780288200) 6 = Some dw"
    by blast
  with t1 have ix: "index dw = filter (\<lambda>t. (1780288200 - 6 * 30 * 86400)
                 + new_york_2026 (1780288200 - 6 * 30 * 86400) \<le> t) (index ?F)"
    and cols: "\<forall>c s. getitem ?F c = Inr s \<longrightarrow>
         getitem dw c = Inr (map snd (filter (\<lambda>(t, v). (1780288200 - 6 * 30 * 86400)
                 + new_york_2026 (1780288200 - 6 * 30 * 86400) \<le> t) (zip (index ?F) s)))"
    by blast+
  have ix': "index dw = [1764720000, 1764806400]" using ix unfolding cut by simp
  have "getitem ?F ''Close'' = Inr [Fin 1, Fin 2, Fin 3]" by (simp add: getitem_def)
  with cols have "getitem dw ''Close'' = Inr (map snd (filter (\<lambda>(t, v). (1780288200 - 6 * 30 * 86400)
                 + new_york_2026 (1780288200 - 6 * 30 * 86400) \<le> t)
              (zip (index ?F) [Fin 1, Fin 2, Fin 3])))" by blast
  then have v1: "getitem dw ''Close'' = Inr [Fin 2, Fin 3]" unfolding cut by simp
  have "getitem ?F ''MA2'' = Inr [NaN, Fin (3 / 2), Fin (5 / 2)]" by (simp add: getitem_def)
  with cols have "getitem dw ''MA2'' = Inr (map snd (filter (\<lambda>(t, v). (1780288200 - 6 * 30 * 86400)
                 + new_york_2026 (1780288200 - 6 * 30 * 86400) \<le> t)
              (zip (index ?F) [NaN, Fin (3 / 2), Fin (5 / 2)])))" by blast
  then have v2: "getitem dw ''MA2'' = Inr [Fin (3 / 2), Fin (5 / 2)]" unfolding cut by simp
  have h: "history ?W ''XBI'' (now ?W - (6 * 30 + 300) * 86400) (now ?W) = Inr ?df0" by simp
  have ne: "\<not> df_empty ?df0" by (simp add: df_empty_def)
  have pf: "prepare_frame ?df0 = Inr ?pf" by code_simp
  have "\<forall>t\<in>set (index ?pf). t < (1780288200 - 6 * 30 * 86400)
                 + new_york_2026 (1780288200 - 6 * 30 * 86400)"
    unfolding cut by simp
  with t2 have none: "select_display_window new_york_2026 ?pf (datetime_now new_york_2026 1780288200) 6
                        = None" by blast
  then have none': "select_display_window (eastern ?W) ?pf (datetime_now (eastern ?W) (now ?W)) 6
                        = None" by simp
  from t2 h ne pf none' have "create_stock_chart ?W ''XBI'' 6 False = None" by blast
  with w0 dw ix' v1 v2 show ?thesis by simp
qed

section \<open>Properties of the cleaning step\<close>

lemma notna_fold:
  assumes "\<forall>(c, s)\<in>set cols. length s = n"
  shows "length (foldr (\<lambda>(c, s) m. map2 (\<and>) (map (\<lambda>v. \<not> isna v) s) m) cols (replicate n True)) = n \<and>
     (\<forall>i<n. foldr (\<lambda>(c, s) m. map2 (\<and>) (map (\<lambda>v. \<not> isna v) s) m) cols (replicate n True) ! i
        \<longleftrightarrow> (\<forall>(c, s)\<in>set cols. \<not> isna (s ! i)))"
  using assms
proof (induction cols)
  case Nil then show ?case by simp
next
  case (Cons a cols)
  obtain c s where a: "a = (c, s)" by (cases a)
  from Cons.prems a have s: "length s = n" and rest: "\<forall>(c, s)\<in>set cols. length s = n" by auto
  from Cons.IH[OF rest] s show ?case unfolding a by auto
qed

lemma length_notna_mask:
  "\<forall>(c, s)\<in>set (columns df). length s = length (index df) \<Longrightarrow>
   length (notna_mask df) = length (index df)"
  unfolding notna_mask_def using notna_fold[of "columns df" "length (index df)"] by blast

lemma notna_mask_nth:
  "\<forall>(c, s)\<in>set (columns df). length s = length (index df) \<Longrightarrow> i < length (index df) \<Longrightarrow>
   notna_mask df ! i \<longleftrightarrow> (\<forall>(c, s)\<in>set (columns df). \<not> isna (s ! i))"
  unfolding notna_mask_def using notna_fold[of "columns df" "length (index df)"] by blast

lemma in_select_rowsD:
  "v \<in> set (select_rows msk xs) \<Longrightarrow> \<exists>i. i < length msk \<and> i < length xs \<and> msk ! i \<and> v = xs ! i"
proof (induction msk xs rule: list_induct2')
  case (4 b msk x xs)
  show ?case
  proof (cases "b \<and> v = x")
    case True then show ?thesis by (intro exI[of _ 0]) simp
  next
    case False
    with 4 have "v \<in> set (select_rows msk xs)" by (auto split: if_splits)
    from "4.IH"[OF this] obtain i where "i < length msk \<and> i < length xs \<and> msk ! i \<and> v = xs ! i" by blast
    then show ?thesis by (intro exI[of _ "Suc i"]) simp
  qed
qed simp_all

lemma dropna_column_notna:
  assumes wf: "\<forall>(c, s)\<in>set (columns df). length s = length (index df)"
    and c: "getitem df c = Inr s" and v: "v \<in> set (select_rows (notna_mask df) s)"
  shows "\<not> isna v"
proof -
  from c have mem: "(c, s) \<in> set (columns df)"
    by (auto simp: getitem_def split: option.splits dest: map_of_SomeD)
  with wf have len: "length s = length (index df)" by auto
  from in_select_rowsD[OF v] obtain i where i: "i < length s" "notna_mask df ! i" "v = s ! i" by blast
  from notna_mask_nth[OF wf] i(1,2) len have "\<forall>(c, s)\<in>set (columns df). \<not> isna (s ! i)" by simp
  with mem i(3) show ?thesis by auto
qed

lemma getitem_dropna:
  "getitem (dropna df) c =
     (case getitem df c of Inl e \<Rightarrow> Inl e | Inr s \<Rightarrow> Inr (select_rows (notna_mask df) s))"
  by (simp add: dropna_def getitem_boolean_index)

lemma index_dropna: "index (dropna df) = select_rows (notna_mask df) (index df)"
  by (simp add: dropna_def)

lemma str_int_50: "''MA'' @ str_int 50 = ''MA50''" by code_simp
lemma str_int_200: "''MA'' @ str_int 200 = ''MA200''" by code_simp

lemma prepare_frame_ok:
  assumes "getitem (dropna df0) ''Close'' = Inr close"
  shows "\<exists>pf. prepare_frame df0 = Inr pf \<and> index pf = index (dropna df0) \<and>
     getitem pf ''Close'' = Inr close \<and>
     getitem pf ''MA50'' = Inr (rolling_mean_nat 50 close) \<and>
     getitem pf ''MA200'' = Inr (rolling_mean_nat 200 close) \<and>
     getitem pf ''RSI'' = Inr (map2 rsi_of (rolling_mean_nat 14 (rsi_gain_raw close))
                                          (rolling_mean_nat 14 (rsi_loss_raw close)))"
proof -
  have ps: "\<forall>p\<in>set [50, 200::int]. 0 \<le> p" by simp
  from calculate_moving_averages_ok[OF assms ps] obtain df' where
    r: "calculate_moving_averages (dropna df0) [50, 200] = (df', None)"
    and ix: "index df' = index (dropna df0)"
    and other: "\<forall>c. c \<notin> (\<lambda>p. ''MA'' @ str_int p) ` set [50, 200] \<longrightarrow> getitem df' c = getitem (dropna df0) c"
    and mas: "\<forall>p\<in>set [50, 200::int]. getitem df' (''MA'' @ str_int p) = Inr (rolling_mean_nat (nat p) close)"
    by blast
  have m50: "getitem df' ''MA50'' = Inr (rolling_mean_nat 50 close)"
    using mas str_int_50 by auto
  have m200: "getitem df' ''MA200'' = Inr (rolling_mean_nat 200 close)"
    using mas str_int_200 by auto
  have "''Close'' \<notin> (\<lambda>p. ''MA'' @ str_int p) ` set [50, 200]" by auto
  with other assms have cl: "getitem df' ''Close'' = Inr close" by simp
  let ?rsi = "map2 rsi_of (rolling_mean_nat 14 (rsi_gain_raw close))
                          (rolling_mean_nat 14 (rsi_loss_raw close))"
  have rsi: "calculate_rsi df' 14 = Inr ?rsi"
    using calculate_rsi_Inr[OF cl, of 14] by simp
  have "prepare_frame df0 = Inr (setitem df' ''RSI'' ?rsi)"
    unfolding prepare_frame_def Let_def r by (simp add: rsi)
  then show ?thesis using ix cl m50 m200 by (simp add: getitem_setitem)
qed

text \<open>
  C10. For a fetched frame with a Close column (every column as long as the index), the
  preparation succeeds; a row is kept exactly when none of its cells is missing; the index
  and the closes of the prepared frame are those of the kept rows, in order, none of them
  missing; and MA50, MA200 and the RSI are the rolling computations over these cleaned
  closes, so a dropped row takes no position in a trailing window.
\<close>

theorem indicators_over_cleaned_rows:
  assumes "getitem df0 ''Close'' = Inr close0"
    and "\<forall>(c, s)\<in>set (columns df0). length s = length (index df0)"
  shows "\<exists>pf close. prepare_frame df0 = Inr pf \<and>
     length (notna_mask df0) = length (index df0) \<and>
     (\<forall>i<length (index df0).
        notna_mask df0 ! i \<longleftrightarrow> (\<forall>(c, s)\<in>set (columns df0). \<not> isna (s ! i))) \<and>
     index pf = select_rows (notna_mask df0) (index df0) \<and>
     close = select_rows (notna_mask df0) close0 \<and> (\<forall>v\<in>set close. \<not> isna v) \<and>
     getitem pf ''Close'' = Inr close \<and>
     getitem pf ''MA50'' = Inr (rolling_mean_nat 50 close) \<and>
     getitem pf ''MA200'' = Inr (rolling_mean_nat 200 close) \<and>
     getitem pf ''RSI'' = Inr (map2 rsi_of (rolling_mean_nat 14 (rsi_gain_raw close))
                                          (rolling_mean_nat 14 (rsi_loss_raw close)))"
proof -
  let ?close = "select_rows (notna_mask df0) close0"
  have c: "getitem (dropna df0) ''Close'' = Inr ?close"
    using assms(1) by (simp add: getitem_dropna)
  from prepare_frame_ok[OF c] obtain pf where pf: "prepare_frame df0 = Inr pf"
    "index pf = index (dropna df0)" "getitem pf ''Close'' = Inr ?close"
    "getitem pf ''MA50'' = Inr (rolling_mean_nat 50 ?close)"
    "getitem pf ''MA200'' = Inr (rolling_mean_nat 200 ?close)"
    "getitem pf ''RSI'' = Inr (map2 rsi_of (rolling_mean_nat 14 (rsi_gain_raw ?close))
                                          (rolling_mean_nat 14 (rsi_loss_raw ?close)))"
    by blast
  have notna: "\<forall>v\<in>set ?close. \<not> isna v"
    using dropna_column_notna[OF assms(2) assms(1)] by blast
  have len: "length (notna_mask df0) = length (index df0)"
    using assms(2) by (rule length_notna_mask)
  have nth: "\<forall>i<length (index df0).
        notna_mask df0 ! i \<longleftrightarrow> (\<forall>(c, s)\<in>set (columns df0). \<not> isna (s ! i))"
    using notna_mask_nth[OF assms(2)] by blast
  from pf notna len nth show ?thesis by (simp add: index_dropna)
qed

theorem indicators_over_cleaned_rows_witness:
  "\<exists>pf. prepare_frame
       \<lparr>index = [0, 86400, 172800],
        columns = [(''Open'', [Fin 1, NaN, Fin 3]), (''Close'', [Fin 1, Fin 2, Fin 4])]\<rparr> = Inr pf \<and>
     index pf = [0, 172800] \<and> getitem pf ''Close'' = Inr [Fin 1, Fin 4] \<and>
     getitem pf ''MA50'' = Inr [NaN, NaN] \<and> getitem pf ''MA200'' = Inr [NaN, NaN] \<and>
     getitem pf ''RSI'' = Inr [NaN, NaN]"
proof -
  let ?cl = "[Fin 1, Fin 2, Fin 4]"
  let ?D = "\<lparr>index = [0, 86400, 172800],
        columns = [(''Open'', [Fin 1, NaN, Fin 3]), (''Close'', ?cl)]\<rparr>"
  have c: "getitem ?D ''Close'' = Inr ?cl" by (simp add: getitem_def)
  have wf: "\<forall>(c, s)\<in>set (columns ?D). length s = length (index ?D)" by simp
  have m: "notna_mask ?D = [True, False, True]" by code_simp
  have r50: "rolling_mean_nat 50 [Fin 1, Fin 4] = [NaN, NaN]" by code_simp
  have r200: "rolling_mean_nat 200 [Fin 1, Fin 4] = [NaN, NaN]" by code_simp
  have rsi: "map2 rsi_of (rolling_mean_nat 14 (rsi_gain_raw [Fin 1, Fin 4]))
                         (rolling_mean_nat 14 (rsi_loss_raw [Fin 1, Fin 4])) = [NaN, NaN]"
    by code_simp
  from indicators_over_cleaned_rows[OF c wf] obtain pf close where
    pf: "prepare_frame ?D = Inr pf"
    and ix: "index pf = select_rows (notna_mask ?D) (index ?D)"
    and cl: "close = select_rows (notna_mask ?D) ?cl"
    and cols: "getitem pf ''Close'' = Inr close"
      "getitem pf ''MA50'' = Inr (rolling_mean_nat 50 close)"
      "getitem pf ''MA200'' = Inr (rolling_mean_nat 200 close)"
      "getitem pf ''RSI'' = Inr (map2 rsi_of (rolling_mean_nat 14 (rsi_gain_raw close))
                                          (rolling_mean_nat 14 (rsi_loss_raw close)))"
    by blast
  have cl': "close = [Fin 1, Fin 4]" unfolding cl m by simp
  have ix': "index pf = [0, 172800]" unfolding ix m by simp
  from pf ix' cols show ?thesis unfolding cl' r50 r200 rsi by simp
qed

section \<open>Properties of the chart\<close>

lemma draw_rows_map: "\<forall>i\<in>set rows. f i = Inr (g i) \<Longrightarrow> draw_rows f rows = Inr (map g rows)"
  by (induction rows) auto

lemma candle_Fin:
  "candle idx (Fin op) (Fin cl) high low =
     (if op = cl
      then [Plot [real idx, real idx] [low, high] ''black'' (1 / 2),
            Plot [real idx - 3 / 10, real idx + 3 / 10] [Fin cl, Fin cl] ''black'' 1]
      else [Plot [real idx, real idx] [low, high] ''black'' (1 / 2),
            Bar (real idx) (Fin (max op cl - min op cl)) (Fin (min op cl))
                (if 0 \<le> cl - op then ''g'' else ''r'')])"
  by (auto simp: candle_def Let_def py_min_def flt_def max_def min_def abs_if)

text \<open>
  C7. In a display window with the four price columns, the candlesticks are drawn for
  every row, and at a row with finite open and close the group drawn is the high-low line
  followed, when open equals close, by a thin horizontal line at that price (no bar), and
  otherwise by a bar from \<open>min(open, close)\<close> of height \<open>max(open, close) - min(open, close)\<close>,
  green when \<open>close - open\<close> is non-negative and red when it is negative.
\<close>

theorem candlestick_bodies:
  assumes "getitem df ''Open'' = Inr opens" and "getitem df ''Close'' = Inr closes"
    and "getitem df ''High'' = Inr highs" and "getitem df ''Low'' = Inr lows"
    and "idx < length (index df)" and "opens ! idx = Fin op" and "closes ! idx = Fin cl"
  shows "\<exists>groups. plot_candlesticks df = Inr groups \<and> length groups = length (index df) \<and>
     groups ! idx =
       (if op = cl
        then [Plot [real idx, real idx] [lows ! idx, highs ! idx] ''black'' (1 / 2),
              Plot [real idx - 3 / 10, real idx + 3 / 10] [Fin cl, Fin cl] ''black'' 1]
        else [Plot [real idx, real idx] [lows ! idx, highs ! idx] ''black'' (1 / 2),
              Bar (real idx) (Fin (max op cl - min op cl)) (Fin (min op cl))
                  (if 0 \<le> cl - op then ''g'' else ''r'')])"
proof -
  let ?g = "\<lambda>i. candle i (opens ! i) (closes ! i) (highs ! i) (lows ! i)"
  have "\<forall>i\<in>set [0..<length (index df)]. candle_row df i = Inr (?g i)"
    using assms(1-4) by (simp add: candle_row_def)
  then have r: "plot_candlesticks df = Inr (map ?g [0..<length (index df)])"
    unfolding plot_candlesticks_def by (rule draw_rows_map)
  have "map ?g [0..<length (index df)] ! idx = ?g idx" using assms(5) by simp
  also have "\<dots> = candle idx (Fin op) (Fin cl) (highs ! idx) (lows ! idx)"
    using assms(6,7) by simp
  finally show ?thesis unfolding r candle_Fin by simp
qed

theorem candlestick_bodies_witness:
  "\<exists>groups. plot_candlesticks
       \<lparr>index = [0, 86400],
        columns = [(''Open'', [Fin 5, Fin 7]), (''High'', [Fin 6, Fin 8]), (''Low'', [Fin 4, Fin 2]),
                   (''Close'', [Fin 5, Fin 3])]\<rparr> = Inr groups \<and> length groups = 2 \<and>
     groups ! 0 = [Plot [0, 0] [Fin 4, Fin 6] ''black'' (1 / 2),
                   Plot [- (3 / 10), 3 / 10] [Fin 5, Fin 5] ''black'' 1] \<and>
     groups ! 1 = [Plot [1, 1] [Fin 2, Fin 8] ''black'' (1 / 2), Bar 1 (Fin 4) (Fin 3) ''r'']"
proof -
  let ?D = "\<lparr>index = [0, 86400],
        columns = [(''Open'', [Fin 5, Fin 7]), (''High'', [Fin 6, Fin 8]), (''Low'', [Fin 4, Fin 2]),
                   (''Close'', [Fin 5, Fin 3])]\<rparr>"
  have o: "getitem ?D ''Open'' = Inr [Fin 5, Fin 7]" and c: "getitem ?D ''Close'' = Inr [Fin 5, Fin 3]"
    and h: "getitem ?D ''High'' = Inr [Fin 6, Fin 8]" and l: "getitem ?D ''Low'' = Inr [Fin 4, Fin 2]"
    by (simp_all add: getitem_def)
  have i0: "0 < length (index ?D)" and i1: "1 < length (index ?D)" by simp_all
  from candlestick_bodies[OF o c h l i0, of 5 5] candlestick_bodies[OF o c h l i1, of 7 3]
  show ?thesis by auto
qed

text \<open>
  C8. The price annotation never raises ZeroDivisionError. With one row the change and the
  percentage change are 0. With at least two rows the change is the latest close minus the
  previous close, and the percentage change is 0 when the previous close is exactly 0 and
  \<open>change / previous * 100\<close> otherwise.
\<close>

theorem price_annotation_guarded:
  "price_annotation closes \<noteq> Inl ZeroDivisionError \<and>
   (length closes = 1 \<longrightarrow> price_annotation closes = Inr (closes ! 0, Fin 0, Fin 0)) \<and>
   (2 \<le> length closes \<longrightarrow>
      price_annotation closes =
        Inr (last closes, fsub (last closes) (closes ! (length closes - 2)),
             if closes ! (length closes - 2) = Fin 0 then Fin 0
             else fmul (fdiv (fsub (last closes) (closes ! (length closes - 2)))
                             (closes ! (length closes - 2))) (Fin 100))) \<and>
   (\<forall>p c. 2 \<le> length closes \<and> last closes = Fin c \<and> closes ! (length closes - 2) = Fin p \<and> p \<noteq> 0
      \<longrightarrow> price_annotation closes = Inr (Fin c, Fin (c - p), Fin ((c - p) / p * 100)))"
proof -
  have l: "closes \<noteq> [] \<Longrightarrow> closes ! (length closes - Suc 0) = last closes"
    by (simp add: last_conv_nth)
  have a: "price_annotation closes \<noteq> Inl ZeroDivisionError"
    by (auto simp: price_annotation_def iloc_neg_def pydiv_def Let_def)
  have b: "length closes = 1 \<longrightarrow> price_annotation closes = Inr (closes ! 0, Fin 0, Fin 0)"
    by (auto simp: price_annotation_def iloc_neg_def)
  have c: "price_annotation closes =
        Inr (last closes, fsub (last closes) (closes ! (length closes - 2)),
             if closes ! (length closes - 2) = Fin 0 then Fin 0
             else fmul (fdiv (fsub (last closes) (closes ! (length closes - 2)))
                             (closes ! (length closes - 2))) (Fin 100))"
    if "2 \<le> length closes"
  proof -
    from that have ne: "closes \<noteq> []" by auto
    show ?thesis using that l[OF ne]
      by (simp add: price_annotation_def iloc_neg_def pydiv_def Let_def)
  qed
  have d: "price_annotation closes = Inr (Fin c, Fin (c - p), Fin ((c - p) / p * 100))"
    if "2 \<le> length closes \<and> last closes = Fin c \<and> closes ! (length closes - 2) = Fin p \<and> p \<noteq> 0"
    for p c
    using c that by simp
  from a b c d show ?thesis by blast
qed

theorem price_annotation_guarded_witness:
  "price_annotation [Fin 4, Fin 5] = Inr (Fin 5, Fin 1, Fin 25) \<and>
   price_annotation [Fin 0, Fin 5] = Inr (Fin 5, Fin 5, Fin 0) \<and>
   price_annotation [Fin 5] = Inr (Fin 5, Fin 0, Fin 0)"
  using price_annotation_guarded[of "[Fin 4, Fin 5]"] price_annotation_guarded[of "[Fin 0, Fin 5]"]
    price_annotation_guarded[of "[Fin 5]"]
  by simp

text \<open>
  C6. The tick positions start at 0 and are evenly spaced, but the spacing is the floor of
  \<open>n / 6\<close>, so there are more than 6 of them whenever \<open>n > 6\<close> is not a multiple of 6:
  7 for a window of 125 rows, 11 for a window of 11 rows.
\<close>

theorem xticks_exceed_six:
  "xtick_positions 125 = Inr [0, 20, 40, 60, 80, 100, 120] \<and>
   xtick_positions 11 = Inr [0, 1, 2, 3, 4, 5, 6, 7, 8, 9, 10]"
  by code_simp

section \<open>Properties of the batch\<close>

lemma process_tickers_acc:
  "process_tickers w ts (cd, su, fa) =
     (cd @ List.map_filter (\<lambda>t. map_option (Pair t) (create_stock_chart w t 6 True)) ts,
      su @ filter (\<lambda>t. create_stock_chart w t 6 True \<noteq> None) ts,
      fa @ filter (\<lambda>t. create_stock_chart w t 6 True = None) ts)"
proof (induction ts arbitrary: cd su fa)
  case Nil then show ?case by (simp add: List.map_filter_simps)
next
  case (Cons t ts)
  show ?case
    by (cases "create_stock_chart w t 6 True") (simp_all add: Cons.IH List.map_filter_simps)
qed

text \<open>
  C5. Whatever fails for a ticker (an exception from the data source, an empty fetched
  frame, an exception while the indicators are computed, an empty display window, an
  exception while drawing or encoding, or any other exception of the body),
  \<open>create_stock_chart\<close> returns None for it; and the loop over the tickers visits every
  ticker of the list: the successful ones are exactly those with a buffer, the failed
  ones exactly those with None, each in the order of the list.
\<close>

theorem ticker_failures_isolated:
  "(\<forall>e. create_stock_chart_body w t m s = Inl e \<longrightarrow> create_stock_chart w t m s = None) \<and>
   (\<forall>e. history w t (now w - (m * 30 + 300) * 86400) (now w) = Inl e \<longrightarrow>
        create_stock_chart w t m s = None) \<and>
   (\<forall>df. history w t (now w - (m * 30 + 300) * 86400) (now w) = Inr df \<and> df_empty df \<longrightarrow>
        create_stock_chart w t m s = None) \<and>
   (\<forall>df e. history w t (now w - (m * 30 + 300) * 86400) (now w) = Inr df \<and> \<not> df_empty df \<and>
        prepare_frame df = Inl e \<longrightarrow> create_stock_chart w t m s = None) \<and>
   (\<forall>df pf. history w t (now w - (m * 30 + 300) * 86400) (now w) = Inr df \<and> \<not> df_empty df \<and>
        prepare_frame df = Inr pf \<and>
        select_display_window (eastern w) pf (datetime_now (eastern w) (now w)) m = None \<longrightarrow>
        create_stock_chart w t m s = None) \<and>
   (\<forall>df pf dw e. history w t (now w - (m * 30 + 300) * 86400) (now w) = Inr df \<and> \<not> df_empty df \<and>
        prepare_frame df = Inr pf \<and>
        select_display_window (eastern w) pf (datetime_now (eastern w) (now w)) m = Some dw \<and>
        draw_figure (strftime w) dw = Inl e \<longrightarrow> create_stock_chart w t m s = None) \<and>
   (\<forall>df pf dw fig e. history w t (now w - (m * 30 + 300) * 86400) (now w) = Inr df \<and>
        \<not> df_empty df \<and> prepare_frame df = Inr pf \<and>
        select_display_window (eastern w) pf (datetime_now (eastern w) (now w)) m = Some dw \<and>
        draw_figure (strftime w) dw = Inr fig \<and>
        ((s \<and> savefig_file w t fig = Some e) \<or> savefig_buf w fig = Inl e) \<longrightarrow>
        create_stock_chart w t m s = None) \<and>
   process_tickers w ts ([], [], []) =
     (List.map_filter (\<lambda>t. map_option (Pair t) (create_stock_chart w t 6 True)) ts,
      filter (\<lambda>t. create_stock_chart w t 6 True \<noteq> None) ts,
      filter (\<lambda>t. create_stock_chart w t 6 True = None) ts)"
proof -
  have p: "process_tickers w ts ([], [], []) =
     (List.map_filter (\<lambda>t. map_option (Pair t) (create_stock_chart w t 6 True)) ts,
      filter (\<lambda>t. create_stock_chart w t 6 True \<noteq> None) ts,
      filter (\<lambda>t. create_stock_chart w t 6 True = None) ts)"
    using process_tickers_acc[of w ts "[]" "[]" "[]"] by simp
  show ?thesis
    unfolding p
    by (auto simp: create_stock_chart_def create_stock_chart_body_def Let_def
             split: option.splits)
qed

theorem ticker_failures_isolated_witness:
  "create_stock_chart
     \<lparr>now = 17280000, eastern = (\<lambda>u. - 14400),
      history = (\<lambda>t s e. if t = ''BAD'' then Inl ExternalError
                         else if t = ''EMPTY'' then Inr \<lparr>index = [], columns = []\<rparr>
                         else Inr \<lparr>index = [17193600],
                                  columns = [(''Open'', [Fin 5]), (''High'', [Fin 6]),
                                             (''Low'', [Fin 4]), (''Close'', [Fin 5])]\<rparr>),
      strftime = (\<lambda>t. ''Jul 70''), savefig_file = (\<lambda>t f. None),
      savefig_buf = (\<lambda>f. Inr ''png''), send_email_with_charts = (\<lambda>c. True)\<rparr>
     ''BAD'' 6 True = None \<and>
   process_tickers
     \<lparr>now = 17280000, eastern = (\<lambda>u. - 14400),
      history = (\<lambda>t s e. if t = ''BAD'' then Inl ExternalError
                         else if t = ''EMPTY'' then Inr \<lparr>index = [], columns = []\<rparr>
                         else Inr \<lparr>index = [17193600],
                                  columns = [(''Open'', [Fin 5]), (''High'', [Fin 6]),
                                             (''Low'', [Fin 4]), (''Close'', [Fin 5])]\<rparr>),
      strftime = (\<lambda>t. ''Jul 70''), savefig_file = (\<lambda>t f. None),
      savefig_buf = (\<lambda>f. Inr ''png''), send_email_with_charts = (\<lambda>c. True)\<rparr>
     [''BAD'', ''XBI'', ''EMPTY'', ''NVDA''] ([], [], []) =
     ([(''XBI'', ''png''), (''NVDA'', ''png'')], [''XBI'', ''NVDA''], [''BAD'', ''EMPTY''])"
proof -
  let ?W = "\<lparr>now = 17280000, eastern = (\<lambda>u. - 14400),
      history = (\<lambda>t s e. if t = ''BAD'' then Inl ExternalError
                         else if t = ''EMPTY'' then Inr \<lparr>index = [], columns = []\<rparr>
                         else Inr \<lparr>index = [17193600],
                                  columns = [(''Open'', [Fin 5]), (''High'', [Fin 6]),
                                             (''Low'', [Fin 4]), (''Close'', [Fin 5])]\<rparr>),
      strftime = (\<lambda>t. ''Jul 70''), savefig_file = (\<lambda>t f. None),
      savefig_buf = (\<lambda>f. Inr ''png''), send_email_with_charts = (\<lambda>c. True)\<rparr>"
  let ?ts = "[''BAD'', ''XBI'', ''EMPTY'', ''NVDA'']"
  note bad = ticker_failures_isolated[of ?W "''BAD''" 6 True ?ts]
  note emp = ticker_failures_isolated[of ?W "''EMPTY''" 6 True ?ts]
  have hb: "history ?W ''BAD'' (now ?W - (6 * 30 + 300) * 86400) (now ?W) = Inl ExternalError"
    by simp
  with bad have b: "create_stock_chart ?W ''BAD'' 6 True = None" by blast
  have he: "history ?W ''EMPTY'' (now ?W - (6 * 30 + 300) * 86400) (now ?W)
              = Inr \<lparr>index = [], columns = []\<rparr> \<and> df_empty \<lparr>index = [], columns = []\<rparr>"
    by (simp add: df_empty_def)
  with emp have e: "create_stock_chart ?W ''EMPTY'' 6 True = None" by blast
  have x: "create_stock_chart ?W ''XBI'' 6 True = Some ''png''" by code_simp
  have n: "create_stock_chart ?W ''NVDA'' 6 True = Some ''png''" by code_simp
  from bad have "process_tickers ?W ?ts ([], [], []) =
     (List.map_filter (\<lambda>t. map_option (Pair t) (create_stock_chart ?W t 6 True)) ?ts,
      filter (\<lambda>t. create_stock_chart ?W t 6 True \<noteq> None) ?ts,
      filter (\<lambda>t. create_stock_chart ?W t 6 True = None) ?ts)" by blast
  then have "process_tickers ?W ?ts ([], [], []) =
     ([(''XBI'', ''png''), (''NVDA'', ''png'')], [''XBI'', ''NVDA''], [''BAD'', ''EMPTY''])"
    by (simp add: List.map_filter_simps b e x n)
  with b show ?thesis by simp
qed

end
